theory Spec2Isabelle
  imports Complex_Main
begin

section \<open>JavaScript values\<close>

text \<open>
  A JavaScript number, by its value: a finite binary64 number is the rational it stands
  for; the sign of zero is not kept. Comparison of two such values is exact. Addition,
  multiplication and the conversions between numbers and strings round, and belong to
  the runtime: they are taken from \<open>lib\<close> below.
\<close>

datatype jsnum = Fin rat | PInf | NInf | NaN

text \<open>
  The value of a parsed JSON request body, and \<open>JUndefined\<close> for a property that is
  not there. A number is the binary64 value that parsing gives. An object is the list of
  its own properties, each name once.
\<close>

datatype jsval =
    JUndefined
  | JNull
  | JBool bool
  | JNum jsnum
  | JStr string
  | JArr "jsval list"
  | JObj "(string \<times> jsval) list"

subsection \<open>Comparison\<close>

text \<open>\<open>a >= b\<close>: false as soon as one side is NaN.\<close>

fun js_ge :: "jsnum \<Rightarrow> jsnum \<Rightarrow> bool" where
  "js_ge NaN _ = False"
| "js_ge _ NaN = False"
| "js_ge (Fin a) (Fin b) = (b \<le> a)"
| "js_ge PInf _ = True"
| "js_ge _ NInf = True"
| "js_ge _ _ = False"

subsection \<open>Truthiness, nullish values, property access\<close>

fun num_truthy :: "jsnum \<Rightarrow> bool" where
  "num_truthy (Fin a) = (a \<noteq> 0)"
| "num_truthy NaN = False"
| "num_truthy _ = True"

fun truthy :: "jsval \<Rightarrow> bool" where
  "truthy JUndefined = False"
| "truthy JNull = False"
| "truthy (JBool b) = b"
| "truthy (JNum n) = num_truthy n"
| "truthy (JStr s) = (s \<noteq> [])"
| "truthy (JArr _) = True"
| "truthy (JObj _) = True"

text \<open>\<open>a || b\<close> and \<open>a ?? b\<close>.\<close>

definition js_or :: "jsval \<Rightarrow> jsval \<Rightarrow> jsval" where
  "js_or a b = (if truthy a then a else b)"

definition nullish :: "jsval \<Rightarrow> bool" where
  "nullish v = (v = JUndefined \<or> v = JNull)"

definition js_coalesce :: "jsval \<Rightarrow> jsval \<Rightarrow> jsval" where
  "js_coalesce a b = (if nullish a then b else a)"

text \<open>
  \<open>v?.k\<close> for one of the property names the handlers read (none of them is a property
  of a prototype): the own property of an object, undefined on any other value.
\<close>

fun get_field :: "jsval \<Rightarrow> string \<Rightarrow> jsval" where
  "get_field (JObj kvs) k = (case map_of kvs k of Some v \<Rightarrow> v | None \<Rightarrow> JUndefined)"
| "get_field _ k = JUndefined"

section \<open>Library functions\<close>

text \<open>
  What the handlers call in the JavaScript runtime, in mongoose and in express-validator
  and whose result is not fixed by this repository. The handlers take them as a
  parameter; everything proved for every \<open>lib\<close> holds whatever these functions answer.
  \<^item> \<open>numAdd\<close>, \<open>numMul\<close>: \<open>a + b\<close> and \<open>a * b\<close> on two numbers, in binary64;
  \<^item> \<open>stringToNumber\<close>: \<open>Number(s)\<close> for a string that is not empty;
  \<^item> \<open>numberToString\<close>: the string of a number;
  \<^item> \<open>stringTrim\<close>: \<open>s.trim()\<close>;
  \<^item> \<open>isValidObjectId\<close>: \<open>Types.ObjectId.isValid\<close>;
  \<^item> \<open>isNumeric\<close>, \<open>isIn\<close>: the verdict of the express-validator chain for the value
    of the field;
  \<^item> \<open>castString\<close>: the cast, to a path of type String, of a value that is neither
    null nor undefined nor a string; \<open>None\<close> when the cast fails.
\<close>

record lib =
  numAdd :: "jsnum \<Rightarrow> jsnum \<Rightarrow> jsnum"
  numMul :: "jsnum \<Rightarrow> jsnum \<Rightarrow> jsnum"
  stringToNumber :: "string \<Rightarrow> jsnum"
  numberToString :: "jsnum \<Rightarrow> string"
  stringTrim :: "string \<Rightarrow> string"
  isValidObjectId :: "jsval \<Rightarrow> bool"
  isNumeric :: "jsval \<Rightarrow> bool"
  isIn :: "jsval \<Rightarrow> string list \<Rightarrow> bool"
  castString :: "jsval \<Rightarrow> string option"

subsection \<open>Conversion to a string\<close>

fun join_commas :: "string list \<Rightarrow> string" where
  "join_commas [] = []"
| "join_commas [s] = s"
| "join_commas (s # t # ss) = s @ '','' @ join_commas (t # ss)"

text \<open>
  The strings of the elements of an array, when each element has one.
\<close>

fun all_some :: "'a option list \<Rightarrow> 'a list option" where
  "all_some [] = Some []"
| "all_some (None # xs) = None"
| "all_some (Some x # xs) = (case all_some xs of None \<Rightarrow> None | Some ys \<Rightarrow> Some (x # ys))"

text \<open>
  \<open>v.toString()\<close>, and the string of an element of an array; \<open>None\<close> is the TypeError
  that is thrown. A property of a parsed body is never a function, so an object with a
  property \<open>toString\<close> of its own has no string: the call of \<open>toString\<close> fails, and so
  does the conversion, which finds no other method that returns a primitive value. Any
  other object prints as \<open>[object Object]\<close>, an array as its elements joined by commas.
  Inside an array null and undefined print as the empty string; the handlers never call
  \<open>toString\<close> on a null or undefined value itself.
\<close>

fun to_string :: "lib \<Rightarrow> jsval \<Rightarrow> string option" where
  "to_string l JUndefined = Some []"
| "to_string l JNull = Some []"
| "to_string l (JBool b) = Some (if b then ''true'' else ''false'')"
| "to_string l (JNum n) = Some (numberToString l n)"
| "to_string l (JStr s) = Some s"
| "to_string l (JArr vs) = map_option join_commas (all_some (map (to_string l) vs))"
| "to_string l (JObj kvs) =
     (if ''toString'' \<in> fst ` set kvs then None else Some ''[object Object]'')"

subsection \<open>Conversion to a number\<close>

text \<open>\<open>Number(s)\<close> for a string: the empty string is 0, the rest is the runtime's.\<close>

definition string_number :: "lib \<Rightarrow> string \<Rightarrow> jsnum" where
  "string_number l s = (if s = [] then Fin 0 else stringToNumber l s)"

text \<open>
  \<open>Number(v)\<close>; \<open>None\<close> is the TypeError that is thrown. An array is converted through
  its string. An object without a \<open>toString\<close> of its own is converted through the string
  \<open>[object Object]\<close>, which is no number; with one, the conversion throws.
\<close>

fun to_number :: "lib \<Rightarrow> jsval \<Rightarrow> jsnum option" where
  "to_number l JUndefined = Some NaN"
| "to_number l JNull = Some (Fin 0)"
| "to_number l (JBool b) = Some (if b then Fin 1 else Fin 0)"
| "to_number l (JNum n) = Some n"
| "to_number l (JStr s) = Some (string_number l s)"
| "to_number l (JArr vs) = map_option (string_number l) (to_string l (JArr vs))"
| "to_number l (JObj kvs) = (if ''toString'' \<in> fst ` set kvs then None else Some NaN)"

section \<open>Data model\<close>

text \<open>The fields of a Product document that the order handlers read.\<close>

record product =
  prod_id :: string
  prod_title :: string
  prod_code :: string
  prod_price :: jsnum
  prod_priceAfterDiscount :: "jsnum option"
  prod_imageUrl :: "string option"
  prod_categories :: "string list"

text \<open>The value stored at a path of type String: nothing, null, or a string.\<close>

datatype str_path = NoValue | NullValue | StrValue string

text \<open>
  \<open>OrderProductSchema\<close>: one line of an order. The three paths of type String that
  take a value of the request hold a \<open>jsval\<close> in the object that the handler builds and
  a \<open>str_path\<close> in the document, after the cast. The path \<open>customFields\<close> is of type
  Mixed and keeps the value it is given; that mongoose leaves an empty object out of
  the document is not modelled.
\<close>

record 'v order_product =
  productId :: string
  title :: string
  code :: string
  price :: jsnum
  quantity :: jsnum
  line_size :: 'v
  color :: string
  imageUrl :: 'v
  category :: 'v
  customFields :: jsval

text \<open>\<open>OrderSchema\<close>.\<close>

record order =
  products :: "str_path order_product list"
  customerName :: str_path
  phone :: str_path
  division :: str_path
  district :: str_path
  upazila :: str_path
  address :: str_path
  order_color :: string
  totalValue :: jsnum
  deliveryCharge :: jsnum
  status :: string
  createdAt :: nat
  order_customFields :: jsval

text \<open>
  \<open>Product.findById(pid)\<close>: a document, none, or the CastError that the query throws
  for an id it cannot cast. The collection of orders is a map from the \<open>_id\<close>.
\<close>

datatype 'a lookup = Found 'a | NoDoc | CastError

type_synonym catalog = "jsval \<Rightarrow> product lookup"

type_synonym order_store = "string \<Rightarrow> order option"

text \<open>
  The responses that are not a success. \<open>Thrown\<close> is an exception thrown in the handler
  before the save (a TypeError of a conversion, the CastError of a query), \<open>SaveFailed\<close>
  the error thrown by \<open>order.save()\<close>; the error handler at the end of the file answers
  both.
\<close>

datatype error =
    ValidationFailed "(string \<times> string) list"
  | ProductsRequired
  | InvalidProductId jsval
  | ProductNotFound jsval
  | InvalidOrderId
  | OrderNotFound
  | Thrown
  | SaveFailed

fun http_status :: "error \<Rightarrow> nat" where
  "http_status (ValidationFailed _) = 400"
| "http_status ProductsRequired = 400"
| "http_status (InvalidProductId _) = 400"
| "http_status (ProductNotFound _) = 400"
| "http_status InvalidOrderId = 400"
| "http_status OrderNotFound = 404"
| "http_status Thrown = 500"
| "http_status SaveFailed = 500"

text \<open>The product id that the message of an error names.\<close>

fun named_id :: "error \<Rightarrow> jsval option" where
  "named_id (InvalidProductId pid) = Some pid"
| "named_id (ProductNotFound pid) = Some pid"
| "named_id _ = None"

text \<open>
  The errors that report a malformed or missing input of the request, as against a
  missing document or an exception.
\<close>

fun is_validation_error :: "error \<Rightarrow> bool" where
  "is_validation_error (ValidationFailed _) = True"
| "is_validation_error ProductsRequired = True"
| "is_validation_error (InvalidProductId _) = True"
| "is_validation_error InvalidOrderId = True"
| "is_validation_error _ = False"

definition STATUSES :: "string list" where
  "STATUSES = [''pending'', ''processing'', ''delivered'', ''cancelled'']"

section \<open>Creating an order\<close>

subsection \<open>One cart line\<close>

text \<open>
  \<^verbatim>\<open>typeof prod.priceAfterDiscount === "number" && prod.priceAfterDiscount >= 0
     ? prod.priceAfterDiscount : prod.price\<close>
\<close>

definition unitPrice :: "product \<Rightarrow> jsnum" where
  "unitPrice prd =
     (case prod_priceAfterDiscount prd of
        Some d \<Rightarrow> if js_ge d (Fin 0) then d else prod_price prd
      | None \<Rightarrow> prod_price prd)"

text \<open>\<^verbatim>\<open>Number(p.quantity ?? 1) || 1\<close>; \<open>None\<close> when \<open>Number\<close> throws.\<close>

definition qty :: "lib \<Rightarrow> jsval \<Rightarrow> jsnum option" where
  "qty l p =
     (case to_number l (js_coalesce (get_field p ''quantity'') (JNum (Fin 1))) of
        None \<Rightarrow> None
      | Some n \<Rightarrow> Some (if num_truthy n then n else Fin 1))"

definition opt_str :: "string option \<Rightarrow> jsval" where
  "opt_str s = (case s of None \<Rightarrow> JUndefined | Some x \<Rightarrow> JStr x)"

text \<open>\<^verbatim>\<open>prod.categories?.[0]\<close>\<close>

definition first_category :: "product \<Rightarrow> jsval" where
  "first_category prd = (case prod_categories prd of [] \<Rightarrow> JUndefined | c # _ \<Rightarrow> JStr c)"

text \<open>
  The object pushed on \<open>detailed\<close> for the cart line \<open>p\<close>, its product and its
  quantity; \<open>None\<close> when \<open>toString\<close> throws on the color.
\<close>

definition detailed_line :: "lib \<Rightarrow> product \<Rightarrow> jsval \<Rightarrow> jsnum \<Rightarrow> jsval order_product option" where
  "detailed_line l prd p q =
     (case to_string l (js_coalesce (get_field p ''color'') (JStr [])) of
        None \<Rightarrow> None
      | Some c \<Rightarrow>
          Some \<lparr> productId = prod_id prd,
                 title = prod_title prd,
                 code = prod_code prd,
                 price = unitPrice prd,
                 quantity = q,
                 line_size = js_or (get_field p ''size'') JNull,
                 color = stringTrim l c,
                 imageUrl =
                   js_or (js_or (get_field p ''imageUrl'') (opt_str (prod_imageUrl prd))) (JStr []),
                 category = js_or (get_field p ''category'') (js_or (first_category prd) JNull),
                 customFields = js_or (get_field p ''customFields'') (JObj []) \<rparr>)"

subsection \<open>The loop over the cart\<close>

text \<open>
  \<open>for (const p of products)\<close>, with the running \<open>productTotal\<close> and \<open>detailed\<close>, and
  the list of the ids handed to \<open>Product.findById\<close> so far. The loop returns at the
  first line whose id is missing or invalid, or has no product, and is left by the
  exception of a query or of a conversion. The message of the two errors holds the
  string of the id, \<^verbatim>\<open>`Invalid productId: ${pid}`\<close> and \<^verbatim>\<open>`Product ${pid} not found`\<close>,
  so building it throws when the id has no string.
\<close>

fun price_lines ::
  "lib \<Rightarrow> catalog \<Rightarrow> jsval list \<Rightarrow> jsnum \<Rightarrow> jsval order_product list \<Rightarrow> jsval list
     \<Rightarrow> (error + jsnum \<times> jsval order_product list) \<times> jsval list" where
  "price_lines l cat [] productTotal detailed reads = (Inr (productTotal, detailed), reads)"
| "price_lines l cat (p # ps) productTotal detailed reads =
     (let pid = get_field p ''productId''
      in if \<not> truthy pid \<or> \<not> isValidObjectId l pid then
           (case to_string l pid of
              None \<Rightarrow> (Inl Thrown, reads)
            | Some _ \<Rightarrow> (Inl (InvalidProductId pid), reads))
         else
           (case cat pid of
              CastError \<Rightarrow> (Inl Thrown, reads @ [pid])
            | NoDoc \<Rightarrow>
                (case to_string l pid of
                   None \<Rightarrow> (Inl Thrown, reads @ [pid])
                 | Some _ \<Rightarrow> (Inl (ProductNotFound pid), reads @ [pid]))
            | Found prd \<Rightarrow>
                (case qty l p of
                   None \<Rightarrow> (Inl Thrown, reads @ [pid])
                 | Some q \<Rightarrow>
                     (case detailed_line l prd p q of
                        None \<Rightarrow> (Inl Thrown, reads @ [pid])
                      | Some item \<Rightarrow>
                          price_lines l cat ps
                            (numAdd l productTotal (numMul l (unitPrice prd) q))
                            (detailed @ [item])
                            (reads @ [pid])))))"

subsection \<open>The order document and its save\<close>

text \<open>
  The cast of a value to a path of type String: null and undefined stay, a string is
  kept, any other value is cast by mongoose, which may fail.
\<close>

fun cast_path :: "lib \<Rightarrow> jsval \<Rightarrow> str_path option" where
  "cast_path l JUndefined = Some NoValue"
| "cast_path l JNull = Some NullValue"
| "cast_path l (JStr s) = Some (StrValue s)"
| "cast_path l v = map_option StrValue (castString l v)"

text \<open>A path with \<open>trim: true\<close>: the string is trimmed after the cast.\<close>

definition cast_trim :: "lib \<Rightarrow> jsval \<Rightarrow> str_path option" where
  "cast_trim l v =
     map_option (\<lambda>x. case x of StrValue s \<Rightarrow> StrValue (stringTrim l s) | _ \<Rightarrow> x) (cast_path l v)"

definition cast_line :: "lib \<Rightarrow> jsval order_product \<Rightarrow> str_path order_product option" where
  "cast_line l d =
     (case cast_path l (line_size d) of
        None \<Rightarrow> None
      | Some s \<Rightarrow>
          (case cast_path l (imageUrl d) of
             None \<Rightarrow> None
           | Some i \<Rightarrow>
               (case cast_path l (category d) of
                  None \<Rightarrow> None
                | Some c \<Rightarrow>
                    Some \<lparr> productId = productId d, title = title d, code = code d,
                           price = price d, quantity = quantity d, line_size = s,
                           color = color d, imageUrl = i, category = c,
                           customFields = customFields d \<rparr>)))"

fun cast_lines :: "lib \<Rightarrow> jsval order_product list \<Rightarrow> str_path order_product list option" where
  "cast_lines l [] = Some []"
| "cast_lines l (d # ds) =
     (case cast_line l d of
        None \<Rightarrow> None
      | Some i \<Rightarrow> (case cast_lines l ds of None \<Rightarrow> None | Some is \<Rightarrow> Some (i # is)))"

text \<open>
  \<open>new Order({...})\<close>, given the two values computed in the object, the trimmed color
  \<open>c\<close> and the delivery charge \<open>dc\<close>. The values are cast to the paths of the
  schema, and trimmed where the path has \<open>trim: true\<close>, as the color has; \<open>None\<close>
  when a cast fails, which the save reports. No status is passed, so the schema's
  default applies; \<open>now\<close> is the default of \<open>createdAt\<close>. The path \<open>customFields\<close> is
  of type Mixed, as in a line.
\<close>

definition new_order ::
  "lib \<Rightarrow> nat \<Rightarrow> jsval \<Rightarrow> string \<Rightarrow> jsnum \<Rightarrow> jsnum \<Rightarrow> jsval order_product list
     \<Rightarrow> order option" where
  "new_order l now body c productTotal dc detailed =
     (case cast_lines l detailed of None \<Rightarrow> None | Some items \<Rightarrow>
      case cast_trim l (get_field body ''customerName'') of None \<Rightarrow> None | Some cn \<Rightarrow>
      case cast_trim l (get_field body ''phone'') of None \<Rightarrow> None | Some ph \<Rightarrow>
      case cast_trim l (get_field body ''division'') of None \<Rightarrow> None | Some dv \<Rightarrow>
      case cast_trim l (get_field body ''district'') of None \<Rightarrow> None | Some ds \<Rightarrow>
      case cast_trim l (get_field body ''upazila'') of None \<Rightarrow> None | Some up \<Rightarrow>
      case cast_path l (get_field body ''address'') of None \<Rightarrow> None | Some ad \<Rightarrow>
        Some \<lparr> products = items,
               customerName = cn, phone = ph, division = dv, district = ds, upazila = up,
               address = ad,
               order_color = stringTrim l c,
               totalValue = productTotal,
               deliveryCharge = dc,
               status = ''pending'',
               createdAt = now,
               order_customFields = js_or (get_field body ''customFields'') (JObj []) \<rparr>)"

text \<open>
  The validation that \<open>save\<close> runs on the numbers and the status, from the two schemas:
  \<open>quantity\<close> has \<open>min: 1\<close>, \<open>totalValue\<close> and \<open>deliveryCharge\<close> have \<open>min: 0\<close>,
  \<open>status\<close> has the enum, and NaN does not cast to a Number.
\<close>

definition valid_line :: "str_path order_product \<Rightarrow> bool" where
  "valid_line item = (price item \<noteq> NaN \<and> js_ge (quantity item) (Fin 1))"

definition valid_order :: "order \<Rightarrow> bool" where
  "valid_order ord =
     (list_all valid_line (products ord) \<and> js_ge (totalValue ord) (Fin 0)
      \<and> js_ge (deliveryCharge ord) (Fin 0) \<and> status ord \<in> set STATUSES)"

text \<open>\<open>await order.save()\<close> of a new document, whose fresh \<open>_id\<close> is \<open>oid\<close>.\<close>

definition save_new :: "order_store \<Rightarrow> string \<Rightarrow> order \<Rightarrow> (error + order) \<times> order_store" where
  "save_new store oid ord =
     (if valid_order ord then (Inr ord, store(oid \<mapsto> ord)) else (Inl SaveFailed, store))"

fun elems :: "jsval \<Rightarrow> jsval list" where
  "elems (JArr vs) = vs"
| "elems _ = []"

text \<open>
  The body of the handler from \<open>let productTotal = 0\<close> on, the same text in both files.
  The result is the response, the collection of orders afterwards, and the ids looked up
  in the catalog. Only an array reaches the loop. After the loop the object for
  \<open>new Order\<close> is built, in which \<open>(color ?? "").toString().trim()\<close> and
  \<open>Number(deliveryCharge || 0)\<close> may throw.
\<close>

definition create_order ::
  "lib \<Rightarrow> catalog \<Rightarrow> order_store \<Rightarrow> string \<Rightarrow> nat \<Rightarrow> jsval
     \<Rightarrow> (error + order) \<times> order_store \<times> jsval list" where
  "create_order l cat store oid now body =
     (case price_lines l cat (elems (get_field body ''products'')) (Fin 0) [] [] of
        (Inl e, reads) \<Rightarrow> (Inl e, store, reads)
      | (Inr (productTotal, detailed), reads) \<Rightarrow>
          (case to_string l (js_coalesce (get_field body ''color'') (JStr [])) of
             None \<Rightarrow> (Inl Thrown, store, reads)
           | Some c \<Rightarrow>
               (case to_number l (js_or (get_field body ''deliveryCharge'') (JNum (Fin 0))) of
                  None \<Rightarrow> (Inl Thrown, store, reads)
                | Some dc \<Rightarrow>
                    (case new_order l now body (stringTrim l c) productTotal dc detailed of
                       None \<Rightarrow> (Inl SaveFailed, store, reads)
                     | Some ord \<Rightarrow>
                         (case save_new store oid ord of (r, store') \<Rightarrow> (r, store', reads))))))"

subsection \<open>\<open>POST /api/orders\<close> in \<open>index.js\<close>\<close>

definition is_array_min1 :: "jsval \<Rightarrow> bool" where
  "is_array_min1 v = (case v of JArr vs \<Rightarrow> 1 \<le> length vs | _ \<Rightarrow> False)"

text \<open>
  The two validators of the route, and what \<open>ensureValidation\<close> collects from them:
  \<^verbatim>\<open>body("products").isArray({ min: 1 }).withMessage("Products are required"),
  body("deliveryCharge").optional().isNumeric()\<close>
\<close>

definition validation_errors :: "lib \<Rightarrow> jsval \<Rightarrow> (string \<times> string) list" where
  "validation_errors l body =
     (if is_array_min1 (get_field body ''products'') then []
      else [(''products'', ''Products are required'')])
     @ (let dc = get_field body ''deliveryCharge''
        in if dc = JUndefined \<or> isNumeric l dc then []
           else [(''deliveryCharge'', ''Invalid value'')])"

definition post_orders ::
  "lib \<Rightarrow> catalog \<Rightarrow> order_store \<Rightarrow> string \<Rightarrow> nat \<Rightarrow> jsval
     \<Rightarrow> (error + order) \<times> order_store \<times> jsval list" where
  "post_orders l cat store oid now body =
     (let errors = validation_errors l body
      in if errors \<noteq> [] then (Inl (ValidationFailed errors), store, [])
         else create_order l cat store oid now body)"

subsection \<open>\<open>POST /api/orders\<close> in the second file\<close>

text \<open>
  \<^verbatim>\<open>if (!products || !Array.isArray(products) || products.length === 0)\<close>
\<close>

definition post_orders_p0 ::
  "lib \<Rightarrow> catalog \<Rightarrow> order_store \<Rightarrow> string \<Rightarrow> nat \<Rightarrow> jsval
     \<Rightarrow> (error + order) \<times> order_store \<times> jsval list" where
  "post_orders_p0 l cat store oid now body =
     (let products = get_field body ''products''
      in if \<not> truthy products \<or> \<not> (case products of JArr _ \<Rightarrow> True | _ \<Rightarrow> False)
            \<or> length (elems products) = 0
         then (Inl ProductsRequired, store, [])
         else create_order l cat store oid now body)"

section \<open>Changing the status of an order\<close>

text \<open>
  \<^verbatim>\<open>order.status = req.body.status ?? order.status; await order.save();\<close>
  A missing or null status assigns the status the order has, and the save has nothing to
  write. Any other value is cast to a string and checked against the enum by the save.
\<close>

definition assign_status ::
  "lib \<Rightarrow> order_store \<Rightarrow> string \<Rightarrow> order \<Rightarrow> jsval \<Rightarrow> (error + order) \<times> order_store" where
  "assign_status l store oid ord s =
     (if nullish s then (Inr ord, store)
      else
        (case cast_path l s of
           Some (StrValue x) \<Rightarrow>
             if x \<in> set STATUSES
             then (Inr (ord\<lparr>status := x\<rparr>), store(oid \<mapsto> ord\<lparr>status := x\<rparr>))
             else (Inl SaveFailed, store)
         | _ \<Rightarrow> (Inl SaveFailed, store)))"

text \<open>
  The handler of the second file; in \<open>index.js\<close> it runs after the validator. The id
  of the route is a string.
\<close>

definition patch_status_p0 ::
  "lib \<Rightarrow> order_store \<Rightarrow> string \<Rightarrow> jsval \<Rightarrow> (error + order) \<times> order_store" where
  "patch_status_p0 l store oid body =
     (if \<not> isValidObjectId l (JStr oid) then (Inl InvalidOrderId, store)
      else
        (case store oid of
           None \<Rightarrow> (Inl OrderNotFound, store)
         | Some ord \<Rightarrow> assign_status l store oid ord (get_field body ''status'')))"

text \<open>
  \<^verbatim>\<open>body("status").isIn(["pending", "processing", "delivered", "cancelled"])
     .withMessage("Invalid status")\<close>
\<close>

definition patch_status ::
  "lib \<Rightarrow> order_store \<Rightarrow> string \<Rightarrow> jsval \<Rightarrow> (error + order) \<times> order_store" where
  "patch_status l store oid body =
     (if \<not> isIn l (get_field body ''status'') STATUSES
      then (Inl (ValidationFailed [(''status'', ''Invalid status'')]), store)
      else patch_status_p0 l store oid body)"

section \<open>Notions of the specification\<close>

text \<open>
  The product a cart line resolves to: its id is there, is a valid id, and the catalog
  has a product for it.
\<close>

definition resolve :: "lib \<Rightarrow> catalog \<Rightarrow> jsval \<Rightarrow> product option" where
  "resolve l cat p =
     (let pid = get_field p ''productId''
      in if truthy pid \<and> isValidObjectId l pid
         then (case cat pid of Found prd \<Rightarrow> Some prd | _ \<Rightarrow> None)
         else None)"

text \<open>
  A cart line whose product id is missing or invalid, or valid with no product in the
  catalog.
\<close>

definition unresolved :: "lib \<Rightarrow> catalog \<Rightarrow> jsval \<Rightarrow> bool" where
  "unresolved l cat p =
     (let pid = get_field p ''productId''
      in \<not> truthy pid \<or> \<not> isValidObjectId l pid \<or> cat pid = NoDoc)"

text \<open>
  A cart line on which the loop is left by an exception: its id does not resolve and has
  no string for the message, or the query throws on its id, or its product is found and
  the conversion of its quantity or of its color throws.
\<close>

definition line_throws :: "lib \<Rightarrow> catalog \<Rightarrow> jsval \<Rightarrow> bool" where
  "line_throws l cat p =
     (let pid = get_field p ''productId''
      in if \<not> truthy pid \<or> \<not> isValidObjectId l pid then to_string l pid = None
         else
           (case cat pid of
              CastError \<Rightarrow> True
            | NoDoc \<Rightarrow> to_string l pid = None
            | Found prd \<Rightarrow>
                (case qty l p of None \<Rightarrow> True | Some q \<Rightarrow> detailed_line l prd p q = None)))"

text \<open>The object that the loop pushes for a cart line.\<close>

definition pushed :: "lib \<Rightarrow> catalog \<Rightarrow> jsval \<Rightarrow> jsval order_product \<Rightarrow> bool" where
  "pushed l cat p d =
     (case resolve l cat p of
        None \<Rightarrow> False
      | Some prd \<Rightarrow>
          (case qty l p of None \<Rightarrow> False | Some q \<Rightarrow> detailed_line l prd p q = Some d))"

text \<open>The stored line is the cast of the object pushed for the cart line.\<close>

definition priced :: "lib \<Rightarrow> catalog \<Rightarrow> jsval \<Rightarrow> str_path order_product \<Rightarrow> bool" where
  "priced l cat p item =
     (case resolve l cat p of
        None \<Rightarrow> False
      | Some prd \<Rightarrow>
          (case qty l p of
             None \<Rightarrow> False
           | Some q \<Rightarrow>
               (case detailed_line l prd p q of
                  None \<Rightarrow> False
                | Some d \<Rightarrow> cast_line l d = Some item)))"

definition line_total :: "lib \<Rightarrow> 'v order_product \<Rightarrow> jsnum" where
  "line_total l item = numMul l (price item) (quantity item)"

text \<open>
  The amount of a cart line: resolved unit price times normalized quantity, in the
  arithmetic of the runtime.
\<close>

definition line_amount :: "lib \<Rightarrow> catalog \<Rightarrow> jsval \<Rightarrow> jsnum" where
  "line_amount l cat p =
     (case resolve l cat p of
        None \<Rightarrow> NaN
      | Some prd \<Rightarrow> (case qty l p of None \<Rightarrow> NaN | Some q \<Rightarrow> numMul l (unitPrice prd) q))"

text \<open>
  The sum of a list of numbers as the loop computes it: added from the left, starting
  from 0, each addition the runtime's.
\<close>

definition js_sum :: "lib \<Rightarrow> jsnum list \<Rightarrow> jsnum" where
  "js_sum l ns = foldl (numAdd l) (Fin 0) ns"

text \<open>
  The cart of a request, the first line of a cart that does not resolve, and the lines
  up to and including it.
\<close>

definition cart_of :: "jsval \<Rightarrow> jsval list" where
  "cart_of body = elems (get_field body ''products'')"

definition first_unresolved :: "lib \<Rightarrow> catalog \<Rightarrow> jsval list \<Rightarrow> jsval" where
  "first_unresolved l cat ps = hd (filter (unresolved l cat) ps)"

definition lines_upto :: "lib \<Rightarrow> catalog \<Rightarrow> jsval list \<Rightarrow> jsval list" where
  "lines_upto l cat ps =
     takeWhile (\<lambda>p. \<not> unresolved l cat p) ps @ [first_unresolved l cat ps]"

text \<open>The request creates the order \<open>ord\<close>, through the handler of either file.\<close>

definition created_order ::
  "lib \<Rightarrow> catalog \<Rightarrow> order_store \<Rightarrow> string \<Rightarrow> nat \<Rightarrow> jsval \<Rightarrow> order \<Rightarrow> bool" where
  "created_order l cat store oid now body ord =
     (fst (post_orders l cat store oid now body) = Inr ord
      \<or> fst (post_orders_p0 l cat store oid now body) = Inr ord)"

text \<open>Two cart lines with the same product id and the same requested quantity.\<close>

definition same_request :: "jsval \<Rightarrow> jsval \<Rightarrow> bool" where
  "same_request p q =
     (get_field p ''productId'' = get_field q ''productId''
      \<and> get_field p ''quantity'' = get_field q ''quantity'')"

text \<open>An integer that is at least 1.\<close>

definition whole_ge1 :: "jsnum \<Rightarrow> bool" where
  "whole_ge1 n = (case n of Fin q \<Rightarrow> of_int \<lfloor>q\<rfloor> = q \<and> 1 \<le> q | _ \<Rightarrow> False)"

section \<open>A library for the examples\<close>

text \<open>
  An instance of \<open>lib\<close> for the examples below. It answers as the runtime and the
  libraries do on the values of the examples: short ASCII strings, absent fields, and
  small numbers whose sums and products are exact in binary64. Its arithmetic is exact,
  its conversion of a string reads a literal without rounding, it trims ASCII white
  space only, and a number prints in decimal notation with at most 20 places after the
  point.
\<close>

fun exact_add :: "jsnum \<Rightarrow> jsnum \<Rightarrow> jsnum" where
  "exact_add NaN _ = NaN"
| "exact_add _ NaN = NaN"
| "exact_add (Fin a) (Fin b) = Fin (a + b)"
| "exact_add PInf NInf = NaN"
| "exact_add NInf PInf = NaN"
| "exact_add PInf _ = PInf"
| "exact_add _ PInf = PInf"
| "exact_add NInf _ = NInf"
| "exact_add _ NInf = NInf"

fun exact_neg :: "jsnum \<Rightarrow> jsnum" where
  "exact_neg (Fin a) = Fin (- a)"
| "exact_neg PInf = NInf"
| "exact_neg NInf = PInf"
| "exact_neg NaN = NaN"

fun num_sign :: "jsnum \<Rightarrow> int" where
  "num_sign (Fin a) = (if a < 0 then - 1 else if a = 0 then 0 else 1)"
| "num_sign PInf = 1"
| "num_sign NInf = - 1"
| "num_sign NaN = 0"

fun exact_mul :: "jsnum \<Rightarrow> jsnum \<Rightarrow> jsnum" where
  "exact_mul NaN _ = NaN"
| "exact_mul _ NaN = NaN"
| "exact_mul (Fin a) (Fin b) = Fin (a * b)"
| "exact_mul x y =
     (let s = num_sign x * num_sign y
      in if s = 0 then NaN else if 0 < s then PInf else NInf)"

text \<open>White space of the ASCII range: TAB, LF, VT, FF, CR and SP.\<close>

definition is_ws :: "char \<Rightarrow> bool" where
  "is_ws c = ((of_char c :: nat) \<in> {9, 10, 11, 12, 13, 32})"

definition std_trim :: "string \<Rightarrow> string" where
  "std_trim s = rev (dropWhile is_ws (rev (dropWhile is_ws s)))"

definition digit_of :: "char \<Rightarrow> nat option" where
  "digit_of c =
     (let n = (of_char c :: nat)
      in if 48 \<le> n \<and> n \<le> 57 then Some (n - 48)
         else if 97 \<le> n \<and> n \<le> 102 then Some (n - 87)
         else if 65 \<le> n \<and> n \<le> 70 then Some (n - 55)
         else None)"

definition is_digit :: "nat \<Rightarrow> char \<Rightarrow> bool" where
  "is_digit base c = (case digit_of c of Some d \<Rightarrow> d < base | None \<Rightarrow> False)"

definition digits_val :: "nat \<Rightarrow> string \<Rightarrow> nat" where
  "digits_val base ds = foldl (\<lambda>a c. a * base + the (digit_of c)) 0 ds"

text \<open>A run of one or more digits of the base, and nothing else.\<close>

definition all_digits :: "nat \<Rightarrow> string \<Rightarrow> bool" where
  "all_digits base ds = (ds \<noteq> [] \<and> list_all (is_digit base) ds)"

text \<open>The exponent part \<open>e\<close> or \<open>E\<close>, an optional sign, digits; or nothing.\<close>

definition exponent_of :: "string \<Rightarrow> int option" where
  "exponent_of r =
     (case r of
        [] \<Rightarrow> Some 0
      | c # r' \<Rightarrow>
          if c = CHR ''e'' \<or> c = CHR ''E'' then
            (case r' of
               [] \<Rightarrow> None
             | s # ds \<Rightarrow>
                 if s = CHR ''+'' then
                   (if all_digits 10 ds then Some (int (digits_val 10 ds)) else None)
                 else if s = CHR ''-'' then
                   (if all_digits 10 ds then Some (- int (digits_val 10 ds)) else None)
                 else if all_digits 10 r' then Some (int (digits_val 10 r')) else None)
          else None)"

text \<open>
  An unsigned decimal literal: \<open>Infinity\<close>, or digits with an optional fraction and an
  optional exponent, at least one digit before or after the point.
\<close>

definition unsigned_decimal :: "string \<Rightarrow> jsnum" where
  "unsigned_decimal r =
     (if r = ''Infinity'' then PInf
      else
        let ip = takeWhile (is_digit 10) r;
            r1 = dropWhile (is_digit 10) r;
            fp = (case r1 of c # r' \<Rightarrow> if c = CHR ''.'' then takeWhile (is_digit 10) r' else [] | [] \<Rightarrow> []);
            r2 = (case r1 of c # r' \<Rightarrow> if c = CHR ''.'' then dropWhile (is_digit 10) r' else r1 | [] \<Rightarrow> [])
        in if ip = [] \<and> fp = [] then NaN
           else
             (case exponent_of r2 of
                None \<Rightarrow> NaN
              | Some e \<Rightarrow>
                  Fin ((of_nat (digits_val 10 ip)
                        + of_nat (digits_val 10 fp) / 10 ^ length fp)
                       * (if 0 \<le> e then 10 ^ nat e else 1 / 10 ^ nat (- e)))))"

text \<open>
  The value of a numeric literal: a blank string is 0, a string that is no numeric
  literal is NaN. A literal with a \<open>0x\<close>, \<open>0o\<close> or \<open>0b\<close> prefix takes no sign.
\<close>

definition std_stringToNumber :: "string \<Rightarrow> jsnum" where
  "std_stringToNumber s =
     (let t = std_trim s
      in case t of
           [] \<Rightarrow> Fin 0
         | c # r \<Rightarrow>
             if c = CHR ''+'' then unsigned_decimal r
             else if c = CHR ''-'' then exact_neg (unsigned_decimal r)
             else if c = CHR ''0'' \<and> r \<noteq> [] \<and> hd r \<in> {CHR ''x'', CHR ''X''} then
               (if all_digits 16 (tl r) then Fin (of_nat (digits_val 16 (tl r))) else NaN)
             else if c = CHR ''0'' \<and> r \<noteq> [] \<and> hd r \<in> {CHR ''o'', CHR ''O''} then
               (if all_digits 8 (tl r) then Fin (of_nat (digits_val 8 (tl r))) else NaN)
             else if c = CHR ''0'' \<and> r \<noteq> [] \<and> hd r \<in> {CHR ''b'', CHR ''B''} then
               (if all_digits 2 (tl r) then Fin (of_nat (digits_val 2 (tl r))) else NaN)
             else unsigned_decimal t)"

fun dec_string :: "nat \<Rightarrow> string" where
  "dec_string n =
     (if n < 10 then [char_of (48 + n)]
      else dec_string (n div 10) @ [char_of (48 + n mod 10)])"

fun frac_string :: "nat \<Rightarrow> rat \<Rightarrow> string" where
  "frac_string 0 x = []"
| "frac_string (Suc k) x =
     (if x = 0 then []
      else char_of (48 + nat \<lfloor>x * 10\<rfloor>) # frac_string k (x * 10 - of_int \<lfloor>x * 10\<rfloor>))"

definition std_numberToString :: "jsnum \<Rightarrow> string" where
  "std_numberToString n =
     (case n of
        NaN \<Rightarrow> ''NaN''
      | PInf \<Rightarrow> ''Infinity''
      | NInf \<Rightarrow> ''-Infinity''
      | Fin q \<Rightarrow>
          (if q < 0 then ''-'' else [])
          @ dec_string (nat \<lfloor>\<bar>q\<bar>\<rfloor>)
          @ (if of_int \<lfloor>q\<rfloor> = q then []
             else ''.'' @ frac_string 20 (\<bar>q\<bar> - of_int \<lfloor>\<bar>q\<bar>\<rfloor>)))"

text \<open>A string of 24 hexadecimal digits, or a number.\<close>

definition std_isValidObjectId :: "jsval \<Rightarrow> bool" where
  "std_isValidObjectId v =
     (case v of
        JStr s \<Rightarrow> length s = 24 \<and> list_all (is_digit 16) s
      | JNum n \<Rightarrow> True
      | _ \<Rightarrow> False)"

text \<open>An optional sign, then digits, or digits (maybe none) then a point then digits.\<close>

definition numeric_str :: "string \<Rightarrow> bool" where
  "numeric_str s =
     (let t = (case s of c # r \<Rightarrow> if c = CHR ''+'' \<or> c = CHR ''-'' then r else s | [] \<Rightarrow> []);
          a = takeWhile (is_digit 10) t;
          r = dropWhile (is_digit 10) t
      in case r of
           [] \<Rightarrow> a \<noteq> []
         | c # r' \<Rightarrow> c = CHR ''.'' \<and> all_digits 10 r')"

text \<open>The validators look at each element of an array, and at any other value itself.\<close>

definition field_values :: "jsval \<Rightarrow> jsval list" where
  "field_values v = (case v of JArr vs \<Rightarrow> vs | _ \<Rightarrow> [v])"

text \<open>The text a validator sees for a value.\<close>

fun std_text :: "jsval \<Rightarrow> string" where
  "std_text JUndefined = []"
| "std_text JNull = []"
| "std_text (JBool b) = (if b then ''true'' else ''false'')"
| "std_text (JNum n) = (if n = NaN then [] else std_numberToString n)"
| "std_text (JStr s) = s"
| "std_text (JArr vs) = join_commas (map std_text vs)"
| "std_text (JObj kvs) = ''[object Object]''"

definition std_isNumeric :: "jsval \<Rightarrow> bool" where
  "std_isNumeric v = list_all (\<lambda>e. numeric_str (std_text e)) (field_values v)"

definition std_isIn :: "jsval \<Rightarrow> string list \<Rightarrow> bool" where
  "std_isIn v opts = list_all (\<lambda>e. std_text e \<in> set opts) (field_values v)"

text \<open>
  A number and a boolean cast to their string, an object with a string \<open>_id\<close> to that
  string; an array and any other object do not cast.
\<close>

definition std_castString :: "jsval \<Rightarrow> string option" where
  "std_castString v =
     (case v of
        JStr s \<Rightarrow> Some s
      | JNum n \<Rightarrow> Some (std_numberToString n)
      | JBool b \<Rightarrow> Some (if b then ''true'' else ''false'')
      | JObj kvs \<Rightarrow>
          (case map_of kvs ''_id'' of
             Some (JStr s) \<Rightarrow> if s = [] then None else Some s
           | _ \<Rightarrow> None)
      | _ \<Rightarrow> None)"

definition std_lib :: lib where
  "std_lib =
     \<lparr> numAdd = exact_add,
       numMul = exact_mul,
       stringToNumber = std_stringToNumber,
       numberToString = std_numberToString,
       stringTrim = std_trim,
       isValidObjectId = std_isValidObjectId,
       isNumeric = std_isNumeric,
       isIn = std_isIn,
       castString = std_castString \<rparr>"

section \<open>Example data\<close>

definition P1_id :: string where
  "P1_id = ''64b7f0c2a1d3e4f5a6b7c8d9''"

definition P2_id :: string where
  "P2_id = ''64b7f0c2a1d3e4f5a6b7c8da''"

text \<open>P1 has a discount and a category; P2 has an image, no discount and no category.\<close>

definition P1 :: product where
  "P1 =
     \<lparr> prod_id = P1_id, prod_title = ''Shirt'', prod_code = ''SH-1'',
       prod_price = Fin 100, prod_priceAfterDiscount = Some (Fin 80),
       prod_imageUrl = None, prod_categories = [''beetroth''] \<rparr>"

definition P2 :: product where
  "P2 =
     \<lparr> prod_id = P2_id, prod_title = ''Cap'', prod_code = ''CP-2'',
       prod_price = Fin 50, prod_priceAfterDiscount = None,
       prod_imageUrl = Some ''/uploads/cap.png'', prod_categories = [] \<rparr>"

text \<open>The catalog has P1 and P2; the query throws on an id that is a number.\<close>

definition cat_ex :: catalog where
  "cat_ex v =
     (if v = JStr P1_id then Found P1
      else if v = JStr P2_id then Found P2
      else case v of JNum n \<Rightarrow> CastError | _ \<Rightarrow> NoDoc)"

text \<open>
  A request for two P1 and one P2. The first cart line carries a price of its own and an
  empty category, the second an empty image and the number 7 as category; the body
  carries a total and a status of its own.
\<close>

definition line_ex1 :: jsval where
  "line_ex1 =
     JObj [(''productId'', JStr P1_id), (''quantity'', JNum (Fin 2)),
           (''price'', JNum (Fin 1)), (''category'', JStr [])]"

definition line_ex2 :: jsval where
  "line_ex2 =
     JObj [(''productId'', JStr P2_id), (''imageUrl'', JStr []), (''category'', JNum (Fin 7))]"

definition body_ex :: jsval where
  "body_ex =
     JObj [(''products'', JArr [line_ex1, line_ex2]), (''totalValue'', JNum (Fin 5)),
           (''status'', JStr ''delivered''), (''deliveryCharge'', JStr ''60'')]"

definition item_ex1 :: "str_path order_product" where
  "item_ex1 =
     \<lparr> productId = P1_id, title = ''Shirt'', code = ''SH-1'', price = Fin 80,
       quantity = Fin 2, line_size = NullValue, color = [], imageUrl = StrValue [],
       category = StrValue ''beetroth'', customFields = JObj [] \<rparr>"

definition item_ex2 :: "str_path order_product" where
  "item_ex2 =
     \<lparr> productId = P2_id, title = ''Cap'', code = ''CP-2'', price = Fin 50,
       quantity = Fin 1, line_size = NullValue, color = [],
       imageUrl = StrValue ''/uploads/cap.png'', category = StrValue ''7'',
       customFields = JObj [] \<rparr>"

definition ord_ex :: order where
  "ord_ex =
     \<lparr> products = [item_ex1, item_ex2], customerName = NoValue, phone = NoValue,
       division = NoValue, district = NoValue, upazila = NoValue,
       address = NoValue, order_color = [], totalValue = Fin 210,
       deliveryCharge = Fin 60, status = ''pending'', createdAt = 0,
       order_customFields = JObj [] \<rparr>"

text \<open>The same request with other prices and another total written by the client.\<close>

definition body_ex_b :: jsval where
  "body_ex_b =
     JObj [(''products'',
            JArr [JObj [(''productId'', JStr P1_id), (''quantity'', JNum (Fin 2)),
                        (''price'', JNum (Fin 999))],
                  JObj [(''productId'', JStr P2_id), (''price'', JNum (Fin 0)),
                        (''category'', JNum (Fin 7))]]),
           (''totalValue'', JNum (Fin 0))]"

text \<open>A cart whose second line has no valid id, in a request with a bad delivery charge.\<close>

definition body_bad :: jsval where
  "body_bad =
     JObj [(''products'', JArr [line_ex1, JObj [(''productId'', JStr ''not-an-id'')]]),
           (''deliveryCharge'', JStr ''abc'')]"

text \<open>The same cart in a request without delivery charge.\<close>

definition body_bad_b :: jsval where
  "body_bad_b =
     JObj [(''products'', JArr [line_ex1, JObj [(''productId'', JStr ''not-an-id'')]])]"

text \<open>
  A cart whose first line resolves and has, as quantity, an object with a property
  \<open>toString\<close>, and whose second line has no valid id.
\<close>

definition line_throw :: jsval where
  "line_throw =
     JObj [(''productId'', JStr P1_id), (''quantity'', JObj [(''toString'', JNum (Fin 1))])]"

definition body_throw :: jsval where
  "body_throw =
     JObj [(''products'', JArr [line_throw, JObj [(''productId'', JStr ''not-an-id'')]])]"

text \<open>A cart whose first line has the number 123 as id.\<close>

definition body_cast :: jsval where
  "body_cast =
     JObj [(''products'',
            JArr [JObj [(''productId'', JNum (Fin 123))],
                  JObj [(''productId'', JStr ''not-an-id'')]])]"

text \<open>A request for two and a half P2.\<close>

definition body_half :: jsval where
  "body_half =
     JObj [(''products'', JArr [JObj [(''productId'', JStr P2_id), (''quantity'', JNum (Fin (5 / 2)))]])]"

text \<open>A store with the order of the first example.\<close>

definition O1_id :: string where
  "O1_id = ''65aa00000000000000000001''"

definition store_ex :: order_store where
  "store_ex = Map.empty(O1_id \<mapsto> ord_ex)"

section \<open>Properties of the loop and of the handlers\<close>

text \<open>
  When the loop comes to its end, every cart line has resolved, the objects appended to
  \<open>detailed\<close> are those pushed for the cart lines in their order, the total has grown
  by their amounts, and each id was looked up once. When a cart line does not resolve,
  the loop ends with an error, which names the id of the first such line unless a line
  before it has thrown.
\<close>

lemma price_lines_Inr:
  "price_lines l cat ps t d r = (Inr (t', d'), r') \<Longrightarrow>
     \<exists>new. d' = d @ new \<and> list_all2 (pushed l cat) ps new
       \<and> t' = foldl (numAdd l) t (map (line_total l) new)
       \<and> r' = r @ map (\<lambda>p. get_field p ''productId'') ps"
proof (induction ps arbitrary: t d r)
  case Nil
  then show ?case by simp
next
  case (Cons p ps)
  let ?pid = "get_field p ''productId''"
  from Cons.prems have ok: "truthy ?pid" "isValidObjectId l ?pid"
    by (auto simp: Let_def split: if_splits option.splits)
  with Cons.prems obtain prd where prd: "cat ?pid = Found prd"
    by (cases "cat ?pid") (auto simp: Let_def split: option.splits)
  with Cons.prems ok obtain q where q: "qty l p = Some q"
    by (cases "qty l p") (auto simp: Let_def)
  with Cons.prems ok prd obtain item where item: "detailed_line l prd p q = Some item"
    by (cases "detailed_line l prd p q") (auto simp: Let_def)
  from Cons.prems ok prd q item
  have "price_lines l cat ps (numAdd l t (numMul l (unitPrice prd) q)) (d @ [item]) (r @ [?pid])
          = (Inr (t', d'), r')"
    by (simp add: Let_def)
  from Cons.IH [OF this] obtain new where new:
    "d' = (d @ [item]) @ new" "list_all2 (pushed l cat) ps new"
    "t' = foldl (numAdd l) (numAdd l t (numMul l (unitPrice prd) q)) (map (line_total l) new)"
    "r' = (r @ [?pid]) @ map (\<lambda>p. get_field p ''productId'') ps"
    by blast
  have "pushed l cat p item"
    using ok prd q item by (simp add: pushed_def resolve_def)
  moreover have "line_total l item = numMul l (unitPrice prd) q"
    using item by (auto simp: line_total_def detailed_line_def split: option.splits)
  ultimately show ?case
    using new by (intro exI [of _ "item # new"]) simp
qed

lemma price_lines_Inl:
  "\<exists>p\<in>set ps. unresolved l cat p \<Longrightarrow>
     \<exists>e r'. price_lines l cat ps t d r = (Inl e, r')
       \<and> (list_all (\<lambda>q. \<not> line_throws l cat q) (lines_upto l cat ps) \<longrightarrow>
            named_id e = Some (get_field (first_unresolved l cat ps) ''productId''))"
proof (induction ps arbitrary: t d r)
  case Nil
  then show ?case by simp
next
  case (Cons p ps)
  let ?pid = "get_field p ''productId''"
  show ?case
  proof (cases "unresolved l cat p")
    case True
    then have fu: "first_unresolved l cat (p # ps) = p"
      and lu: "lines_upto l cat (p # ps) = [p]"
      by (simp_all add: first_unresolved_def lines_upto_def)
    from True have "\<exists>e r'. price_lines l cat (p # ps) t d r = (Inl e, r')
        \<and> (\<not> line_throws l cat p \<longrightarrow> named_id e = Some ?pid)"
      by (auto simp: unresolved_def line_throws_def Let_def split: option.splits)
    then show ?thesis by (auto simp: fu lu)
  next
    case False
    then have ok: "truthy ?pid" "isValidObjectId l ?pid" "cat ?pid \<noteq> NoDoc"
      by (auto simp: unresolved_def Let_def)
    from False have fu: "first_unresolved l cat (p # ps) = first_unresolved l cat ps"
      and lu: "lines_upto l cat (p # ps) = p # lines_upto l cat ps"
      by (simp_all add: first_unresolved_def lines_upto_def)
    show ?thesis
    proof (cases "line_throws l cat p")
      case True
      then have "price_lines l cat (p # ps) t d r = (Inl Thrown, r @ [?pid])"
        using ok by (auto simp: line_throws_def Let_def split: lookup.splits option.splits)
      with True show ?thesis by (simp add: lu)
    next
      case nt: False
      with ok obtain prd q item where
        f: "cat ?pid = Found prd" "qty l p = Some q" "detailed_line l prd p q = Some item"
        by (auto simp: line_throws_def Let_def split: lookup.splits option.splits)
      from False Cons.prems have "\<exists>p\<in>set ps. unresolved l cat p" by auto
      from Cons.IH [OF this]
      have "\<exists>e r'. price_lines l cat ps (numAdd l t (numMul l (unitPrice prd) q))
                (d @ [item]) (r @ [?pid]) = (Inl e, r')
              \<and> (list_all (\<lambda>q. \<not> line_throws l cat q) (lines_upto l cat ps) \<longrightarrow>
                   named_id e = Some (get_field (first_unresolved l cat ps) ''productId''))" .
      moreover have "price_lines l cat (p # ps) t d r
          = price_lines l cat ps (numAdd l t (numMul l (unitPrice prd) q))
                (d @ [item]) (r @ [?pid])"
        using ok f by (simp add: Let_def)
      ultimately show ?thesis unfolding fu lu using nt by auto
    qed
  qed
qed

lemma cast_line_Some:
  "cast_line l d = Some i \<Longrightarrow>
     productId i = productId d \<and> title i = title d \<and> code i = code d \<and> price i = price d
     \<and> quantity i = quantity d \<and> color i = color d \<and> customFields i = customFields d
     \<and> cast_path l (line_size d) = Some (line_size i)
     \<and> cast_path l (imageUrl d) = Some (imageUrl i)
     \<and> cast_path l (category d) = Some (category i)"
  by (auto simp: cast_line_def split: option.splits)

lemma cast_lines_Some:
  "cast_lines l ds = Some items \<Longrightarrow> list_all2 (\<lambda>d i. cast_line l d = Some i) ds items"
  by (induction ds arbitrary: items) (auto split: option.splits)

lemma new_order_Some:
  assumes "new_order l now body c t dc ds = Some ord"
  shows "cast_lines l ds = Some (products ord)" "totalValue ord = t" "deliveryCharge ord = dc"
    "status ord = ''pending''"
  using assms by (auto simp: new_order_def split: option.splits)

lemma create_order_Inr:
  assumes "fst (create_order l cat store oid now body) = Inr ord"
  shows "list_all2 (priced l cat) (elems (get_field body ''products'')) (products ord)
         \<and> totalValue ord = js_sum l (map (line_total l) (products ord))
         \<and> status ord = ''pending''
         \<and> to_number l (js_or (get_field body ''deliveryCharge'') (JNum (Fin 0)))
             = Some (deliveryCharge ord)
         \<and> valid_order ord
         \<and> create_order l cat store oid now body
             = (Inr ord, store(oid \<mapsto> ord),
                map (\<lambda>p. get_field p ''productId'') (elems (get_field body ''products'')))"
proof -
  let ?cart = "elems (get_field body ''products'')"
  obtain res reads where pl: "price_lines l cat ?cart (Fin 0) [] [] = (res, reads)"
    by (cases "price_lines l cat ?cart (Fin 0) [] []")
  with assms obtain t ds where res: "res = Inr (t, ds)"
    by (cases res) (auto simp: create_order_def)
  from assms pl res obtain c where c:
    "to_string l (js_coalesce (get_field body ''color'') (JStr [])) = Some c"
    by (cases "to_string l (js_coalesce (get_field body ''color'') (JStr []))")
       (auto simp: create_order_def)
  from assms pl res c obtain dc where dc:
    "to_number l (js_or (get_field body ''deliveryCharge'') (JNum (Fin 0))) = Some dc"
    by (cases "to_number l (js_or (get_field body ''deliveryCharge'') (JNum (Fin 0)))")
       (auto simp: create_order_def)
  from assms pl res c dc obtain ord' where no: "new_order l now body (stringTrim l c) t dc ds = Some ord'"
    by (cases "new_order l now body (stringTrim l c) t dc ds") (auto simp: create_order_def)
  from assms pl res c dc no have v: "valid_order ord'" and o: "ord' = ord"
    by (auto simp: create_order_def save_new_def split: if_splits)
  note n = new_order_Some [OF no [unfolded o]]
  from price_lines_Inr [OF pl [unfolded res]]
  have p: "list_all2 (pushed l cat) ?cart ds"
    and t: "t = foldl (numAdd l) (Fin 0) (map (line_total l) ds)"
    and r: "reads = map (\<lambda>p. get_field p ''productId'') ?cart"
    by auto
  note cl = cast_lines_Some [OF n(1)]
  have "list_all2 (\<lambda>p i. \<exists>d. pushed l cat p d \<and> cast_line l d = Some i) ?cart (products ord)"
    using p cl by (rule list_all2_trans [rotated]) blast
  then have pr: "list_all2 (priced l cat) ?cart (products ord)"
    by (rule list_all2_mono) (auto simp: pushed_def priced_def split: option.splits)
  have "list_all2 (\<lambda>d i. line_total l d = line_total l i) ds (products ord)"
    using cl by (rule list_all2_mono) (auto simp: line_total_def dest: cast_line_Some)
  then have "map (line_total l) ds = map (line_total l) (products ord)"
    by (induction rule: list_all2_induct) auto
  with t n(2) have tv: "totalValue ord = js_sum l (map (line_total l) (products ord))"
    by (simp add: js_sum_def)
  have "create_order l cat store oid now body = (Inr ord, store(oid \<mapsto> ord), reads)"
    using pl res c dc no v o by (simp add: create_order_def save_new_def)
  with pr tv n(3,4) dc v o r show ?thesis by simp
qed

lemma created_order_create:
  "created_order l cat store oid now body ord \<Longrightarrow>
     fst (create_order l cat store oid now body) = Inr ord"
  by (auto simp: created_order_def post_orders_def post_orders_p0_def Let_def split: if_splits)

lemma created_order_lines:
  assumes "created_order l cat store oid now body ord"
  shows "list_all2 (priced l cat) (cart_of body) (products ord)"
    and "totalValue ord = js_sum l (map (line_total l) (products ord))"
    and "status ord = ''pending''"
    and "to_number l (js_or (get_field body ''deliveryCharge'') (JNum (Fin 0)))
           = Some (deliveryCharge ord)"
    and "valid_order ord"
proof -
  note c = create_order_Inr [OF created_order_create [OF assms], folded cart_of_def]
  show "list_all2 (priced l cat) (cart_of body) (products ord)"
    using c by (rule conjunct1)
  show "totalValue ord = js_sum l (map (line_total l) (products ord))"
    using c by blast
  show "status ord = ''pending''"
    using c by blast
  show "to_number l (js_or (get_field body ''deliveryCharge'') (JNum (Fin 0)))
           = Some (deliveryCharge ord)"
    using c by blast
  show "valid_order ord"
    using c by blast
qed

text \<open>What a stored line takes from its cart line and its product.\<close>

lemma priced_fields:
  assumes "priced l cat p item"
  shows "\<exists>prd q. resolve l cat p = Some prd \<and> qty l p = Some q
           \<and> price item = unitPrice prd \<and> quantity item = q
           \<and> cast_path l (js_or (js_or (get_field p ''imageUrl'') (opt_str (prod_imageUrl prd))) (JStr []))
               = Some (imageUrl item)
           \<and> cast_path l (js_or (get_field p ''category'') (js_or (first_category prd) JNull))
               = Some (category item)"
  using assms
  by (auto simp: priced_def detailed_line_def split: option.splits dest!: cast_line_Some)

lemma std_castString_7: "std_castString (JNum (Fin 7)) = Some ''7''"
  by code_simp

lemmas ex_defs = std_lib_def std_isValidObjectId_def std_isNumeric_def
  std_isIn_def std_castString_7 numeric_str_def field_values_def
  P1_id_def P2_id_def P1_def P2_def cat_ex_def line_ex1_def line_ex2_def body_ex_def
  item_ex1_def item_ex2_def ord_ex_def body_ex_b_def body_bad_def body_bad_b_def body_half_def
  line_throw_def body_throw_def body_cast_def store_ex_def O1_id_def

lemmas js_defs = js_or_def nullish_def js_coalesce_def string_number_def is_ws_def std_trim_def
  digit_of_def is_digit_def digits_val_def all_digits_def exponent_of_def unsigned_decimal_def
  std_stringToNumber_def

lemmas handler_defs = unitPrice_def qty_def opt_str_def first_category_def detailed_line_def
  cast_line_def cast_trim_def new_order_def valid_line_def valid_order_def save_new_def
  create_order_def is_array_min1_def validation_errors_def post_orders_def post_orders_p0_def
  STATUSES_def

lemma post_orders_ex:
  "post_orders std_lib cat_ex Map.empty ''o1'' 0 body_ex
     = (Inr ord_ex, Map.empty(''o1'' \<mapsto> ord_ex), [JStr P1_id, JStr P2_id])"
  by (simp add: ex_defs js_defs handler_defs Let_def)

lemma created_order_ex: "created_order std_lib cat_ex Map.empty ''o1'' 0 body_ex ord_ex"
  by (simp add: created_order_def post_orders_ex)

lemma resolve_ex:
  "resolve std_lib cat_ex line_ex1 = Some P1" "resolve std_lib cat_ex line_ex2 = Some P2"
  by (simp_all add: resolve_def ex_defs js_defs Let_def)

lemma cart_of_ex: "cart_of body_ex = [line_ex1, line_ex2]"
  by (simp add: cart_of_def body_ex_def)

lemma line_amount_ex:
  "line_amount std_lib cat_ex line_ex1 = Fin 160" "line_amount std_lib cat_ex line_ex2 = Fin 50"
  by (simp_all add: line_amount_def resolve_def ex_defs js_defs handler_defs Let_def)

lemma list_all2_map_eq: "list_all2 (\<lambda>x y. f x = g y) xs ys \<Longrightarrow> map f xs = map g ys"
  by (induction rule: list_all2_induct) auto

lemma priced_same_request:
  assumes "priced l cat p item" "priced l cat q item'" "same_request p q"
  shows "price item = price item' \<and> quantity item = quantity item'"
proof -
  from priced_fields [OF assms(1)] obtain prd n where
    a: "resolve l cat p = Some prd" "qty l p = Some n" "price item = unitPrice prd" "quantity item = n"
    by blast
  from priced_fields [OF assms(2)] obtain prd' n' where
    b: "resolve l cat q = Some prd'" "qty l q = Some n'" "price item' = unitPrice prd'" "quantity item' = n'"
    by blast
  from assms(3) have "resolve l cat p = resolve l cat q" "qty l p = qty l q"
    by (simp_all add: same_request_def resolve_def qty_def)
  with a b show ?thesis by simp
qed

lemma post_orders_ex_b:
  "post_orders std_lib cat_ex Map.empty ''o2'' 0 body_ex_b
     = (Inr (ord_ex\<lparr>deliveryCharge := Fin 0\<rparr>),
        Map.empty(''o2'' \<mapsto> ord_ex\<lparr>deliveryCharge := Fin 0\<rparr>), [JStr P1_id, JStr P2_id])"
  by (simp add: ex_defs js_defs handler_defs Let_def)

lemma same_request_ex: "list_all2 same_request (cart_of body_ex) (cart_of body_ex_b)"
  by (simp add: cart_of_def body_ex_def body_ex_b_def same_request_def line_ex1_def line_ex2_def)

lemma validation_errors_empty_iff:
  "validation_errors l body = [] \<longleftrightarrow>
     is_array_min1 (get_field body ''products'')
     \<and> (get_field body ''deliveryCharge'' = JUndefined \<or> isNumeric l (get_field body ''deliveryCharge''))"
  by (auto simp: validation_errors_def Let_def)

lemma unresolved_cart_is_array:
  assumes "\<exists>p\<in>set (cart_of body). unresolved l cat p"
  shows "\<exists>p ps. get_field body ''products'' = JArr (p # ps)"
proof (cases "get_field body ''products''")
  case (JArr vs)
  with assms show ?thesis by (cases vs) (auto simp: cart_of_def)
qed (use assms in \<open>auto simp: cart_of_def\<close>)

lemma create_order_unresolved:
  assumes "\<exists>p\<in>set (cart_of body). unresolved l cat p"
  shows "\<exists>e reads. create_order l cat store oid now body = (Inl e, store, reads)
           \<and> (list_all (\<lambda>q. \<not> line_throws l cat q) (lines_upto l cat (cart_of body)) \<longrightarrow>
                named_id e = Some (get_field (first_unresolved l cat (cart_of body)) ''productId''))"
proof -
  from price_lines_Inl [OF assms, of "Fin 0" "[]" "[]"]
  obtain e r' where "price_lines l cat (cart_of body) (Fin 0) [] [] = (Inl e, r')"
    "list_all (\<lambda>q. \<not> line_throws l cat q) (lines_upto l cat (cart_of body)) \<longrightarrow>
       named_id e = Some (get_field (first_unresolved l cat (cart_of body)) ''productId'')"
    by blast
  then show ?thesis
    by (simp add: create_order_def cart_of_def)
qed

lemma post_orders_bad:
  "post_orders std_lib cat_ex Map.empty ''o1'' 0 body_bad
     = (Inl (ValidationFailed [(''deliveryCharge'', ''Invalid value'')]), Map.empty, [])"
  by (simp add: ex_defs js_defs handler_defs Let_def)

lemma post_orders_bad_b:
  "post_orders std_lib cat_ex Map.empty ''o1'' 0 body_bad_b
     = (Inl (InvalidProductId (JStr ''not-an-id'')), Map.empty, [JStr P1_id])"
  by (simp add: ex_defs js_defs handler_defs Let_def)

lemma post_orders_throw:
  "post_orders std_lib cat_ex Map.empty ''o1'' 0 body_throw = (Inl Thrown, Map.empty, [JStr P1_id])"
  "post_orders_p0 std_lib cat_ex Map.empty ''o1'' 0 body_throw = (Inl Thrown, Map.empty, [JStr P1_id])"
  by (simp_all add: ex_defs js_defs handler_defs Let_def)

text \<open>The query throws on the id 123, which is a valid id.\<close>

lemma post_orders_cast:
  "post_orders std_lib cat_ex Map.empty ''o1'' 0 body_cast = (Inl Thrown, Map.empty, [JNum (Fin 123)])"
  "post_orders_p0 std_lib cat_ex Map.empty ''o1'' 0 body_cast = (Inl Thrown, Map.empty, [JNum (Fin 123)])"
  by (simp_all add: ex_defs js_defs handler_defs Let_def)

lemma cart_of_bad:
  "cart_of body_bad = [line_ex1, JObj [(''productId'', JStr ''not-an-id'')]]"
  "cart_of body_bad_b = [line_ex1, JObj [(''productId'', JStr ''not-an-id'')]]"
  "cart_of body_throw = [line_throw, JObj [(''productId'', JStr ''not-an-id'')]]"
  by (simp_all add: cart_of_def body_bad_def body_bad_b_def body_throw_def)

lemma unresolved_ex:
  "unresolved std_lib cat_ex (JObj [(''productId'', JStr ''not-an-id'')])"
  "\<not> unresolved std_lib cat_ex line_ex1"
  "\<not> unresolved std_lib cat_ex line_throw"
  "\<not> line_throws std_lib cat_ex line_ex1"
  "\<not> line_throws std_lib cat_ex (JObj [(''productId'', JStr ''not-an-id'')])"
  "line_throws std_lib cat_ex line_throw"
  by (simp_all add: unresolved_def line_throws_def ex_defs js_defs handler_defs Let_def)

lemma num_truthy_iff: "num_truthy n \<longleftrightarrow> n \<noteq> NaN \<and> n \<noteq> Fin 0"
  by (cases n) auto

lemma qty_eq:
  "qty l p =
     (if nullish (get_field p ''quantity'') then Some (Fin 1)
      else case to_number l (get_field p ''quantity'') of
             None \<Rightarrow> None
           | Some n \<Rightarrow> Some (if n = NaN \<or> n = Fin 0 then Fin 1 else n))"
  by (auto simp: qty_def js_coalesce_def num_truthy_iff split: option.splits)

lemma valid_order_quantities:
  "valid_order ord \<Longrightarrow> \<forall>item\<in>set (products ord). js_ge (quantity item) (Fin 1)"
  by (auto simp: valid_order_def valid_line_def list_all_iff)

lemma post_orders_half:
  "fst (post_orders std_lib cat_ex Map.empty ''o1'' 0 body_half)
     = Inr \<lparr> products = [item_ex2\<lparr>quantity := Fin (5 / 2), category := NullValue\<rparr>],
             customerName = NoValue, phone = NoValue, division = NoValue, district = NoValue,
             upazila = NoValue, address = NoValue, order_color = [],
             totalValue = Fin 125, deliveryCharge = Fin 0, status = ''pending'',
             createdAt = 0, order_customFields = JObj [] \<rparr>"
  by (simp add: ex_defs js_defs handler_defs Let_def)

lemma std_abc: "stringToNumber std_lib ''abc'' = NaN"
  by (simp add: std_lib_def js_defs)

lemma image_fields_ex:
  "get_field line_ex1 ''imageUrl'' = JUndefined" "prod_imageUrl P1 = None"
  "get_field line_ex2 ''imageUrl'' = JStr []" "prod_imageUrl P2 = Some ''/uploads/cap.png''"
  "map imageUrl (products ord_ex) = [StrValue [], StrValue ''/uploads/cap.png'']"
  by (simp_all add: line_ex1_def line_ex2_def P1_def P2_def ord_ex_def item_ex1_def item_ex2_def)

lemma patch_status_invalid:
  "\<not> isIn l (get_field body ''status'') STATUSES \<Longrightarrow>
     patch_status l store oid body
       = (Inl (ValidationFailed [(''status'', ''Invalid status'')]), store)"
  by (simp add: patch_status_def)

lemma patch_status_not_found:
  "isIn l (get_field body ''status'') STATUSES \<Longrightarrow> isValidObjectId l (JStr oid) \<Longrightarrow>
     store oid = None \<Longrightarrow> patch_status l store oid body = (Inl OrderNotFound, store)"
  by (simp add: patch_status_def patch_status_p0_def)

lemma patch_status_p0_store:
  assumes "patch_status_p0 l store oid body = (r, store')"
  shows "store' = store
         \<or> (\<exists>ord x. store oid = Some ord \<and> x \<in> set STATUSES
               \<and> r = Inr (ord\<lparr>status := x\<rparr>) \<and> store' = store(oid \<mapsto> ord\<lparr>status := x\<rparr>))"
  using assms
  by (auto simp: patch_status_p0_def assign_status_def
           split: if_splits option.splits str_path.splits)

lemma patch_status_store:
  assumes "patch_status l store oid body = (r, store')"
  shows "store' = store
         \<or> (\<exists>ord x. store oid = Some ord \<and> x \<in> set STATUSES
               \<and> r = Inr (ord\<lparr>status := x\<rparr>) \<and> store' = store(oid \<mapsto> ord\<lparr>status := x\<rparr>))"
proof (cases "isIn l (get_field body ''status'') STATUSES")
  case True
  with assms have "patch_status_p0 l store oid body = (r, store')"
    by (simp add: patch_status_def)
  then show ?thesis by (rule patch_status_p0_store)
next
  case False
  with assms show ?thesis by (simp add: patch_status_def)
qed

lemma patch_defs_ex:
  "isValidObjectId std_lib (JStr O1_id)" "store_ex O1_id = Some ord_ex"
  by (simp_all add: std_lib_def std_isValidObjectId_def O1_id_def store_ex_def is_digit_def digit_of_def)

lemma falsy_to_number:
  "\<not> truthy v \<Longrightarrow> to_number l v = Some n \<Longrightarrow> n \<noteq> NaN \<Longrightarrow> n = Fin 0"
  by (cases v) (auto simp: num_truthy_iff string_number_def)

section \<open>The claims\<close>

subsection \<open>C1: the total of a created order\<close>

text \<open>
  C1. For every request that creates an order, every line of the cart resolves to a
  product and has a quantity, and the order's \<open>totalValue\<close> is the sum, over the cart
  lines in their order, of the unit price resolved from the catalog times the normalized
  quantity; it is also the sum of price times quantity over the stored lines. The sum
  and the products are those of the runtime, taken in the order of the loop. No field of
  the request other than the product ids and the quantities occurs in it.
\<close>

theorem C1_total:
  assumes "created_order l cat store oid now body ord"
  shows "(\<forall>p\<in>set (cart_of body). resolve l cat p \<noteq> None \<and> qty l p \<noteq> None)
         \<and> totalValue ord = js_sum l (map (line_amount l cat) (cart_of body))
         \<and> list_all2 (\<lambda>p item. line_total l item = line_amount l cat p) (cart_of body) (products ord)
         \<and> totalValue ord = js_sum l (map (line_total l) (products ord))"
proof -
  note cl = created_order_lines [OF assms]
  have a: "list_all2 (\<lambda>p item. (resolve l cat p \<noteq> None \<and> qty l p \<noteq> None)
                \<and> line_total l item = line_amount l cat p)
             (cart_of body) (products ord)"
    using cl(1)
    by (rule list_all2_mono)
       (auto simp: line_amount_def line_total_def dest!: priced_fields)
  then have b: "map (line_total l) (products ord) = map (line_amount l cat) (cart_of body)"
    by (induction rule: list_all2_induct) auto
  from a have c: "\<forall>p\<in>set (cart_of body). resolve l cat p \<noteq> None \<and> qty l p \<noteq> None"
    by (induction rule: list_all2_induct) auto
  from a have d: "list_all2 (\<lambda>p item. line_total l item = line_amount l cat p) (cart_of body) (products ord)"
    by (rule list_all2_mono) simp
  show ?thesis using b c d cl(2) by simp
qed

theorem C1_total_witness:
  "created_order std_lib cat_ex Map.empty ''o1'' 0 body_ex ord_ex
   \<and> totalValue ord_ex = js_sum std_lib (map (line_amount std_lib cat_ex) (cart_of body_ex))
   \<and> js_sum std_lib (map (line_amount std_lib cat_ex) (cart_of body_ex)) = Fin 210"
proof -
  note w = C1_total [OF created_order_ex]
  have "js_sum std_lib (map (line_amount std_lib cat_ex) (cart_of body_ex)) = Fin 210"
    by (simp add: cart_of_ex line_amount_ex js_sum_def) (simp add: std_lib_def)
  with w created_order_ex show ?thesis by blast
qed

subsection \<open>C2: the unit price of a line\<close>

text \<open>
  C2. In a created order the price stored with each line is, for the product that the
  cart line resolves to, its \<open>priceAfterDiscount\<close> when that is present and at least 0,
  and its \<open>price\<close> otherwise.
\<close>

theorem C2_unit_price:
  assumes "created_order l cat store oid now body ord"
  shows "list_all2
           (\<lambda>p item. case resolve l cat p of
                        None \<Rightarrow> False
                      | Some prd \<Rightarrow>
                          price item =
                            (case prod_priceAfterDiscount prd of
                               Some d \<Rightarrow> if js_ge d (Fin 0) then d else prod_price prd
                             | None \<Rightarrow> prod_price prd))
           (cart_of body) (products ord)"
  using created_order_lines(1) [OF assms]
  by (rule list_all2_mono) (auto simp: unitPrice_def dest!: priced_fields)

theorem C2_unit_price_witness:
  "created_order std_lib cat_ex Map.empty ''o1'' 0 body_ex ord_ex
   \<and> list_all2
           (\<lambda>p item. case resolve std_lib cat_ex p of
                        None \<Rightarrow> False
                      | Some prd \<Rightarrow>
                          price item =
                            (case prod_priceAfterDiscount prd of
                               Some d \<Rightarrow> if js_ge d (Fin 0) then d else prod_price prd
                             | None \<Rightarrow> prod_price prd))
           (cart_of body_ex) (products ord_ex)
   \<and> map price (products ord_ex) = [Fin 80, Fin 50]"
proof -
  note w = C2_unit_price [OF created_order_ex]
  have "map price (products ord_ex) = [Fin 80, Fin 50]"
    by (simp add: ord_ex_def item_ex1_def item_ex2_def)
  with w created_order_ex show ?thesis by blast
qed

subsection \<open>C3: prices do not depend on what the client writes\<close>

text \<open>
  C3. Take two requests against the same catalog whose carts agree, line by line, on the
  product id and on the requested quantity, and differ in any other field of the lines
  or of the body (a price, a total). When both create an order, the two orders store the
  same line prices and the same \<open>totalValue\<close>.
\<close>

theorem C3_price_independent:
  assumes "list_all2 same_request (cart_of body1) (cart_of body2)"
    and "created_order l cat store1 oid1 now1 body1 ord1"
    and "created_order l cat store2 oid2 now2 body2 ord2"
  shows "map price (products ord1) = map price (products ord2)
         \<and> totalValue ord1 = totalValue ord2"
proof -
  note c1 = created_order_lines [OF assms(2)]
  note c2 = created_order_lines [OF assms(3)]
  have "list_all2 (\<lambda>item p. priced l cat p item) (products ord1) (cart_of body1)"
    using c1(1) by (simp add: list_all2_conv_all_nth)
  then have "list_all2 (\<lambda>item q. \<exists>p. priced l cat p item \<and> same_request p q)
               (products ord1) (cart_of body2)"
    using assms(1) by (rule list_all2_trans [rotated]) blast
  then have eq: "list_all2 (\<lambda>item item'. price item = price item' \<and> quantity item = quantity item')
               (products ord1) (products ord2)"
    using c2(1) by (rule list_all2_trans [rotated]) (blast dest: priced_same_request)
  then have "list_all2 (\<lambda>item item'. price item = price item') (products ord1) (products ord2)"
    by (rule list_all2_mono) simp
  then have p: "map price (products ord1) = map price (products ord2)"
    by (rule list_all2_map_eq)
  from eq have "list_all2 (\<lambda>item item'. line_total l item = line_total l item')
                  (products ord1) (products ord2)"
    by (rule list_all2_mono) (simp add: line_total_def)
  then have "map (line_total l) (products ord1) = map (line_total l) (products ord2)"
    by (rule list_all2_map_eq)
  with c1(2) c2(2) p show ?thesis by simp
qed

theorem C3_price_independent_witness:
  "list_all2 same_request (cart_of body_ex) (cart_of body_ex_b)
   \<and> get_field body_ex ''totalValue'' \<noteq> get_field body_ex_b ''totalValue''
   \<and> map (\<lambda>p. get_field p ''price'') (cart_of body_ex) \<noteq> map (\<lambda>p. get_field p ''price'') (cart_of body_ex_b)
   \<and> created_order std_lib cat_ex Map.empty ''o1'' 0 body_ex ord_ex
   \<and> created_order std_lib cat_ex Map.empty ''o2'' 0 body_ex_b (ord_ex\<lparr>deliveryCharge := Fin 0\<rparr>)
   \<and> map price (products ord_ex) = map price (products (ord_ex\<lparr>deliveryCharge := Fin 0\<rparr>))
   \<and> totalValue ord_ex = totalValue (ord_ex\<lparr>deliveryCharge := Fin 0\<rparr>)"
proof -
  have b: "created_order std_lib cat_ex Map.empty ''o2'' 0 body_ex_b (ord_ex\<lparr>deliveryCharge := Fin 0\<rparr>)"
    by (simp add: created_order_def post_orders_ex_b)
  note w = C3_price_independent [OF same_request_ex created_order_ex b]
  have "get_field body_ex ''totalValue'' \<noteq> get_field body_ex_b ''totalValue''"
    "map (\<lambda>p. get_field p ''price'') (cart_of body_ex) \<noteq> map (\<lambda>p. get_field p ''price'') (cart_of body_ex_b)"
    by (simp_all add: cart_of_def body_ex_def body_ex_b_def line_ex1_def line_ex2_def)
  then show ?thesis
    by (intro conjI) (rule same_request_ex created_order_ex b conjunct1 [OF w] conjunct2 [OF w] | assumption)+
qed

subsection \<open>C4: a cart with a line that does not resolve\<close>

text \<open>
  C4, as stated, fails in both files: when a line before the invalid one resolves and
  carries, as quantity, an object with a property \<open>toString\<close>, \<open>Number\<close> throws on it,
  and the request is answered by the error handler, with the status 500 and no product
  id, although a line of the cart has an invalid id.
\<close>

theorem C4_counterexample:
  "cart_of body_throw = [line_throw, JObj [(''productId'', JStr ''not-an-id'')]]
   \<and> unresolved std_lib cat_ex (JObj [(''productId'', JStr ''not-an-id'')])
   \<and> post_orders std_lib cat_ex Map.empty ''o1'' 0 body_throw = (Inl Thrown, Map.empty, [JStr P1_id])
   \<and> post_orders_p0 std_lib cat_ex Map.empty ''o1'' 0 body_throw = (Inl Thrown, Map.empty, [JStr P1_id])
   \<and> named_id Thrown = None \<and> http_status Thrown = 500"
  by (simp add: cart_of_bad unresolved_ex(1) post_orders_throw)

text \<open>
  C4, amended. When some line of the cart has a missing or invalid product id, or an id
  with no product, the request fails and the collection of orders is unchanged. When no
  line up to and including the first such line throws, the error names the id of that
  line: always in the second file, and in \<open>index.js\<close> when \<open>deliveryCharge\<close> is absent
  or numeric; otherwise \<open>index.js\<close> answers the validation error on \<open>deliveryCharge\<close>.
\<close>

theorem C4_all_or_nothing:
  assumes "\<exists>p\<in>set (cart_of body). unresolved l cat p"
  shows "(\<exists>e reads. post_orders_p0 l cat store oid now body = (Inl e, store, reads)
            \<and> (list_all (\<lambda>q. \<not> line_throws l cat q) (lines_upto l cat (cart_of body)) \<longrightarrow>
                 named_id e = Some (get_field (first_unresolved l cat (cart_of body)) ''productId'')))
         \<and> (\<exists>e reads. post_orders l cat store oid now body = (Inl e, store, reads)
              \<and> (if get_field body ''deliveryCharge'' = JUndefined
                     \<or> isNumeric l (get_field body ''deliveryCharge'')
                  then list_all (\<lambda>q. \<not> line_throws l cat q) (lines_upto l cat (cart_of body)) \<longrightarrow>
                         named_id e = Some (get_field (first_unresolved l cat (cart_of body)) ''productId'')
                  else e = ValidationFailed [(''deliveryCharge'', ''Invalid value'')]))"
proof -
  from unresolved_cart_is_array [OF assms] obtain p ps where
    arr: "get_field body ''products'' = JArr (p # ps)" by blast
  note co = create_order_unresolved [OF assms, of store oid now]
  have "post_orders_p0 l cat store oid now body = create_order l cat store oid now body"
    by (simp add: post_orders_p0_def arr)
  with co have a: "\<exists>e reads. post_orders_p0 l cat store oid now body = (Inl e, store, reads)
            \<and> (list_all (\<lambda>q. \<not> line_throws l cat q) (lines_upto l cat (cart_of body)) \<longrightarrow>
                 named_id e = Some (get_field (first_unresolved l cat (cart_of body)) ''productId''))"
    by simp
  have b: "\<exists>e reads. post_orders l cat store oid now body = (Inl e, store, reads)
              \<and> (if get_field body ''deliveryCharge'' = JUndefined
                     \<or> isNumeric l (get_field body ''deliveryCharge'')
                  then list_all (\<lambda>q. \<not> line_throws l cat q) (lines_upto l cat (cart_of body)) \<longrightarrow>
                         named_id e = Some (get_field (first_unresolved l cat (cart_of body)) ''productId'')
                  else e = ValidationFailed [(''deliveryCharge'', ''Invalid value'')])"
  proof (cases "get_field body ''deliveryCharge'' = JUndefined
                     \<or> isNumeric l (get_field body ''deliveryCharge'')")
    case True
    then have "validation_errors l body = []"
      by (simp add: validation_errors_empty_iff arr is_array_min1_def)
    then have "post_orders l cat store oid now body = create_order l cat store oid now body"
      by (simp add: post_orders_def)
    with co True show ?thesis by simp
  next
    case False
    then have "validation_errors l body = [(''deliveryCharge'', ''Invalid value'')]"
      by (simp add: validation_errors_def arr is_array_min1_def Let_def)
    with False show ?thesis
      by (simp add: post_orders_def)
  qed
  from a b show ?thesis by blast
qed

theorem C4_all_or_nothing_witness:
  "(\<exists>p\<in>set (cart_of body_bad_b). unresolved std_lib cat_ex p)
   \<and> list_all (\<lambda>q. \<not> line_throws std_lib cat_ex q) (lines_upto std_lib cat_ex (cart_of body_bad_b))
   \<and> post_orders std_lib cat_ex Map.empty ''o1'' 0 body_bad_b
       = (Inl (InvalidProductId (JStr ''not-an-id'')), Map.empty, [JStr P1_id])
   \<and> get_field (first_unresolved std_lib cat_ex (cart_of body_bad_b)) ''productId'' = JStr ''not-an-id''
   \<and> (\<exists>e reads. post_orders_p0 std_lib cat_ex Map.empty ''o1'' 0 body_bad_b = (Inl e, Map.empty, reads)
            \<and> named_id e = Some (JStr ''not-an-id''))"
proof -
  have h: "\<exists>p\<in>set (cart_of body_bad_b). unresolved std_lib cat_ex p"
    by (simp add: cart_of_bad unresolved_ex)
  have n: "list_all (\<lambda>q. \<not> line_throws std_lib cat_ex q) (lines_upto std_lib cat_ex (cart_of body_bad_b))"
    by (simp add: lines_upto_def first_unresolved_def cart_of_bad unresolved_ex)
  have f: "get_field (first_unresolved std_lib cat_ex (cart_of body_bad_b)) ''productId'' = JStr ''not-an-id''"
    by (simp add: first_unresolved_def cart_of_bad unresolved_ex)
  from C4_all_or_nothing [OF h, of Map.empty "''o1''" 0] n
  have "\<exists>e reads. post_orders_p0 std_lib cat_ex Map.empty ''o1'' 0 body_bad_b = (Inl e, Map.empty, reads)
            \<and> named_id e = Some (JStr ''not-an-id'')"
    unfolding f by blast
  with h n f post_orders_bad_b show ?thesis by blast
qed

subsection \<open>C5: the normalized quantity\<close>

text \<open>
  C5, as stated, fails: nothing makes the quantity a whole number. A request for two and
  a half units creates an order whose line has the quantity 5/2; a requested quantity of
  -2 is normalized to -2 (the save then refuses the order, by \<open>min: 1\<close>).
\<close>

theorem C5_counterexample:
  "(case fst (post_orders std_lib cat_ex Map.empty ''o1'' 0 body_half) of
      Inr ord \<Rightarrow> map quantity (products ord) = [Fin (5 / 2)]
    | Inl e \<Rightarrow> False)
   \<and> \<not> whole_ge1 (Fin (5 / 2))
   \<and> qty std_lib (JObj [(''quantity'', JNum (Fin (- 2)))]) = Some (Fin (- 2))
   \<and> \<not> whole_ge1 (Fin (- 2))"
proof -
  have "\<lfloor>(5::rat) / 2\<rfloor> = 2"
    by (rule floor_unique) simp_all
  then show ?thesis
    by (simp add: post_orders_half whole_ge1_def qty_eq nullish_def)
qed

text \<open>
  C5, amended. The normalized quantity is 1 when the requested quantity is absent or
  null; otherwise, when \<open>Number\<close> returns on it, it is 1 if the result is NaN or 0, and
  the result itself if not. So 0, null, an absent quantity and every string that
  \<open>Number\<close> converts to NaN give 1, and 3 gives 3. In a created order every line stores
  the normalized quantity of its cart line, and it is at least 1; it need not be a whole
  number.
\<close>

theorem C5_quantity:
  "qty l p =
     (if nullish (get_field p ''quantity'') then Some (Fin 1)
      else case to_number l (get_field p ''quantity'') of
             None \<Rightarrow> None
           | Some n \<Rightarrow> Some (if n = NaN \<or> n = Fin 0 then Fin 1 else n))
   \<and> qty l (JObj [(''quantity'', JNum (Fin 0))]) = Some (Fin 1)
   \<and> (stringToNumber l s = NaN \<longrightarrow> qty l (JObj [(''quantity'', JStr s)]) = Some (Fin 1))
   \<and> qty l (JObj [(''quantity'', JNull)]) = Some (Fin 1)
   \<and> qty l (JObj []) = Some (Fin 1)
   \<and> qty l (JObj [(''quantity'', JNum (Fin 3))]) = Some (Fin 3)
   \<and> (created_order l cat store oid now body ord \<longrightarrow>
        list_all2 (\<lambda>p item. qty l p = Some (quantity item) \<and> js_ge (quantity item) (Fin 1))
          (cart_of body) (products ord))"
proof -
  have inst: "qty l (JObj [(''quantity'', JNum (Fin 0))]) = Some (Fin 1)"
    "qty l (JObj [(''quantity'', JNull)]) = Some (Fin 1)"
    "qty l (JObj []) = Some (Fin 1)"
    "qty l (JObj [(''quantity'', JNum (Fin 3))]) = Some (Fin 3)"
    by (simp_all add: qty_eq nullish_def)
  have str: "qty l (JObj [(''quantity'', JStr s)]) = Some (Fin 1)" if "stringToNumber l s = NaN"
    using that by (simp add: qty_eq nullish_def string_number_def)
  have store: "list_all2 (\<lambda>p item. qty l p = Some (quantity item) \<and> js_ge (quantity item) (Fin 1))
          (cart_of body) (products ord)" if c: "created_order l cat store oid now body ord"
  proof -
    note cl = created_order_lines [OF c]
    have "list_all2 (\<lambda>p item. qty l p = Some (quantity item)) (cart_of body) (products ord)"
      using cl(1) by (rule list_all2_mono) (auto dest!: priced_fields)
    moreover have "\<forall>item\<in>set (products ord). js_ge (quantity item) (Fin 1)"
      using cl(5) by (rule valid_order_quantities)
    ultimately show ?thesis
      by (auto simp: list_all2_conv_all_nth all_set_conv_all_nth)
  qed
  show ?thesis
    by (intro conjI impI) (rule qty_eq inst | erule store str)+
qed

theorem C5_quantity_witness:
  "created_order std_lib cat_ex Map.empty ''o1'' 0 body_ex ord_ex
   \<and> list_all2 (\<lambda>p item. qty std_lib p = Some (quantity item) \<and> js_ge (quantity item) (Fin 1))
          (cart_of body_ex) (products ord_ex)
   \<and> stringToNumber std_lib ''abc'' = NaN
   \<and> qty std_lib (JObj [(''quantity'', JStr ''abc'')]) = Some (Fin 1)
   \<and> qty std_lib line_ex1 = Some (Fin 2) \<and> qty std_lib line_ex2 = Some (Fin 1)"
proof -
  note w = C5_quantity [where l = std_lib and p = line_ex1 and s = "''abc''" and cat = cat_ex
    and store = Map.empty and oid = "''o1''" and now = 0 and body = body_ex and ord = ord_ex]
  from w created_order_ex
  have a: "list_all2 (\<lambda>p item. qty std_lib p = Some (quantity item) \<and> js_ge (quantity item) (Fin 1))
          (cart_of body_ex) (products ord_ex)"
    by blast
  from w std_abc have s: "qty std_lib (JObj [(''quantity'', JStr ''abc'')]) = Some (Fin 1)"
    by blast
  have b: "qty std_lib line_ex1 = Some (Fin 2)" "qty std_lib line_ex2 = Some (Fin 1)"
    by (simp_all add: qty_eq line_ex1_def line_ex2_def nullish_def)
  show ?thesis
    by (intro conjI) (rule created_order_ex a b s std_abc)+
qed

subsection \<open>C6: changing the status\<close>

text \<open>
  In \<open>index.js\<close> a status that the validator refuses is answered with the validation
  error and nothing is stored (\<open>patch_status_invalid\<close>); a valid status on a valid id with
  no order is answered with the error of a missing order (\<open>patch_status_not_found\<close>). In
  both files the collection changes only by giving an order a status of the enum
  (\<open>patch_status_store\<close>, \<open>patch_status_p0_store\<close>).

  C6. The handler of the second file has no validator. For an order that exists, a
  request without status, or with a null status, succeeds and answers the order, and a
  status outside the enum fails only in the save, with the status 500 of the error
  handler. The handler of \<open>index.js\<close> answers the validation error to the same requests.
\<close>

theorem C6_second_file:
  "patch_status_p0 std_lib store_ex O1_id (JObj []) = (Inr ord_ex, store_ex)
   \<and> patch_status_p0 std_lib store_ex O1_id (JObj [(''status'', JNull)]) = (Inr ord_ex, store_ex)
   \<and> patch_status_p0 std_lib store_ex O1_id (JObj [(''status'', JStr ''shipped'')])
        = (Inl SaveFailed, store_ex)
   \<and> http_status SaveFailed = 500
   \<and> patch_status std_lib store_ex O1_id (JObj [])
        = (Inl (ValidationFailed [(''status'', ''Invalid status'')]), store_ex)
   \<and> patch_status std_lib store_ex O1_id (JObj [(''status'', JStr ''shipped'')])
        = (Inl (ValidationFailed [(''status'', ''Invalid status'')]), store_ex)"
proof -
  have a: "patch_status_p0 std_lib store_ex O1_id (JObj []) = (Inr ord_ex, store_ex)"
    "patch_status_p0 std_lib store_ex O1_id (JObj [(''status'', JNull)]) = (Inr ord_ex, store_ex)"
    by (simp_all add: patch_status_p0_def patch_defs_ex assign_status_def nullish_def)
  have b: "patch_status_p0 std_lib store_ex O1_id (JObj [(''status'', JStr ''shipped'')])
        = (Inl SaveFailed, store_ex)"
    by (simp add: patch_status_p0_def patch_defs_ex assign_status_def nullish_def STATUSES_def)
  have c: "\<not> isIn std_lib (get_field (JObj []) ''status'') STATUSES"
    "\<not> isIn std_lib (get_field (JObj [(''status'', JStr ''shipped'')]) ''status'') STATUSES"
    by (simp_all add: std_lib_def std_isIn_def field_values_def STATUSES_def)
  show ?thesis
    using a b patch_status_invalid [OF c(1)] patch_status_invalid [OF c(2)] by simp
qed

subsection \<open>C7: an empty or absent cart\<close>

text \<open>
  C7. When \<open>products\<close> is absent or is the empty array, both handlers answer a validation
  error that reports the products, the collection of orders is unchanged, and no id has
  been looked up in the catalog.
\<close>

theorem C7_empty_cart:
  assumes "get_field body ''products'' = JUndefined \<or> get_field body ''products'' = JArr []"
  shows "post_orders l cat store oid now body
           = (Inl (ValidationFailed (validation_errors l body)), store, [])
         \<and> (''products'', ''Products are required'') \<in> set (validation_errors l body)
         \<and> is_validation_error (ValidationFailed (validation_errors l body))
         \<and> post_orders_p0 l cat store oid now body = (Inl ProductsRequired, store, [])
         \<and> is_validation_error ProductsRequired"
proof -
  from assms have n: "\<not> is_array_min1 (get_field body ''products'')"
    by (auto simp: is_array_min1_def)
  then have v: "(''products'', ''Products are required'') \<in> set (validation_errors l body)"
    by (simp add: validation_errors_def)
  then have "validation_errors l body \<noteq> []" by auto
  then have a: "post_orders l cat store oid now body
           = (Inl (ValidationFailed (validation_errors l body)), store, [])"
    by (simp add: post_orders_def Let_def)
  from assms have b: "post_orders_p0 l cat store oid now body = (Inl ProductsRequired, store, [])"
    by (auto simp: post_orders_p0_def Let_def)
  from a v b show ?thesis by simp
qed

theorem C7_empty_cart_witness:
  "(get_field (JObj [(''products'', JArr [])]) ''products'' = JUndefined
      \<or> get_field (JObj [(''products'', JArr [])]) ''products'' = JArr [])
   \<and> post_orders std_lib cat_ex store_ex ''o1'' 0 (JObj [(''products'', JArr [])])
       = (Inl (ValidationFailed [(''products'', ''Products are required'')]), store_ex, [])
   \<and> post_orders_p0 std_lib cat_ex store_ex ''o1'' 0 (JObj [(''products'', JArr [])])
       = (Inl ProductsRequired, store_ex, [])
   \<and> post_orders std_lib cat_ex store_ex ''o1'' 0 (JObj [])
       = (Inl (ValidationFailed [(''products'', ''Products are required'')]), store_ex, [])
   \<and> post_orders_p0 std_lib cat_ex store_ex ''o1'' 0 (JObj [])
       = (Inl ProductsRequired, store_ex, [])"
proof -
  have h1: "get_field (JObj [(''products'', JArr [])]) ''products'' = JUndefined
      \<or> get_field (JObj [(''products'', JArr [])]) ''products'' = JArr []"
    by simp
  have h2: "get_field (JObj []) ''products'' = JUndefined \<or> get_field (JObj []) ''products'' = JArr []"
    by simp
  have v: "validation_errors std_lib (JObj [(''products'', JArr [])]) = [(''products'', ''Products are required'')]"
     "validation_errors std_lib (JObj []) = [(''products'', ''Products are required'')]"
    by (simp_all add: validation_errors_def is_array_min1_def)
  note w1 = C7_empty_cart [OF h1, of std_lib cat_ex store_ex "''o1''" 0, unfolded v]
  note w2 = C7_empty_cart [OF h2, of std_lib cat_ex store_ex "''o1''" 0, unfolded v]
  from h1 w1 w2 show ?thesis by blast
qed

subsection \<open>C8: the category of a line\<close>

text \<open>
  C8, as stated, fails: the first cart line of the example carries the category \<open>""\<close>,
  which is present, and the stored line has the first category of the product.
\<close>

theorem C8_counterexample:
  "cart_of body_ex = [line_ex1, line_ex2]
   \<and> get_field line_ex1 ''category'' = JStr []
   \<and> post_orders std_lib cat_ex Map.empty ''o1'' 0 body_ex
       = (Inr ord_ex, Map.empty(''o1'' \<mapsto> ord_ex), [JStr P1_id, JStr P2_id])
   \<and> map category (products ord_ex) = [StrValue ''beetroth'', StrValue ''7'']"
  by (simp add: cart_of_ex post_orders_ex) (simp add: line_ex1_def ord_ex_def item_ex1_def item_ex2_def)

text \<open>
  C8, amended. In a created order the category of each line is the category of the cart
  line, cast to a string, when that value is truthy: a string that is not empty is
  stored as it is, the number 7 of the example as \<open>"7"\<close>. Else it is the first category of
  the resolved product when there is one and it is not empty, else null.
\<close>

theorem C8_category:
  assumes "created_order l cat store oid now body ord"
  shows "list_all2
           (\<lambda>p item. case resolve l cat p of
                        None \<Rightarrow> False
                      | Some prd \<Rightarrow>
                          (if truthy (get_field p ''category'')
                           then cast_path l (get_field p ''category'') = Some (category item)
                           else category item =
                                  (case prod_categories prd of
                                     [] \<Rightarrow> NullValue
                                   | c # cs \<Rightarrow> if c = [] then NullValue else StrValue c))
                          \<and> (\<forall>s. get_field p ''category'' = JStr s \<and> s \<noteq> [] \<longrightarrow>
                                 category item = StrValue s))
           (cart_of body) (products ord)"
  using created_order_lines(1) [OF assms]
proof (rule list_all2_mono)
  fix p item
  assume "priced l cat p item"
  from priced_fields [OF this] obtain prd where
    r: "resolve l cat p = Some prd"
    and c: "cast_path l (js_or (get_field p ''category'') (js_or (first_category prd) JNull))
              = Some (category item)"
    by blast
  show "case resolve l cat p of
          None \<Rightarrow> False
        | Some prd \<Rightarrow>
            (if truthy (get_field p ''category'')
             then cast_path l (get_field p ''category'') = Some (category item)
             else category item =
                    (case prod_categories prd of
                       [] \<Rightarrow> NullValue
                     | c # cs \<Rightarrow> if c = [] then NullValue else StrValue c))
            \<and> (\<forall>s. get_field p ''category'' = JStr s \<and> s \<noteq> [] \<longrightarrow> category item = StrValue s)"
    using c by (auto simp: r js_or_def first_category_def split: list.splits if_splits)
qed

theorem C8_category_witness:
  "created_order std_lib cat_ex Map.empty ''o1'' 0 body_ex ord_ex
   \<and> list_all2
           (\<lambda>p item. case resolve std_lib cat_ex p of
                        None \<Rightarrow> False
                      | Some prd \<Rightarrow>
                          (if truthy (get_field p ''category'')
                           then cast_path std_lib (get_field p ''category'') = Some (category item)
                           else category item =
                                  (case prod_categories prd of
                                     [] \<Rightarrow> NullValue
                                   | c # cs \<Rightarrow> if c = [] then NullValue else StrValue c))
                          \<and> (\<forall>s. get_field p ''category'' = JStr s \<and> s \<noteq> [] \<longrightarrow>
                                 category item = StrValue s))
           (cart_of body_ex) (products ord_ex)
   \<and> get_field line_ex2 ''category'' = JNum (Fin 7)
   \<and> map category (products ord_ex) = [StrValue ''beetroth'', StrValue ''7'']"
proof -
  have a: "get_field line_ex2 ''category'' = JNum (Fin 7)"
    "map category (products ord_ex) = [StrValue ''beetroth'', StrValue ''7'']"
    by (simp_all add: line_ex2_def ord_ex_def item_ex1_def item_ex2_def)
  show ?thesis
    by (intro conjI) (rule created_order_ex C8_category [OF created_order_ex] a)+
qed

subsection \<open>C9: status and delivery charge of a created order\<close>

text \<open>
  C9. Every created order has the status \<open>pending\<close>, whatever the body of the request
  holds. Its \<open>deliveryCharge\<close> is 0 when the request has none, and is the number the
  request's \<open>deliveryCharge\<close> converts to whenever it converts to a number.
\<close>

theorem C9_status_delivery:
  assumes "created_order l cat store oid now body ord"
  shows "status ord = ''pending''
         \<and> (get_field body ''deliveryCharge'' = JUndefined \<longrightarrow> deliveryCharge ord = Fin 0)
         \<and> (\<forall>n. to_number l (get_field body ''deliveryCharge'') = Some n \<and> n \<noteq> NaN \<longrightarrow>
              deliveryCharge ord = n)"
proof -
  note s = created_order_lines(3) [OF assms]
  note d = created_order_lines(4) [OF assms]
  show ?thesis
    using s d falsy_to_number [of "get_field body ''deliveryCharge''" l]
    by (auto simp: js_or_def split: if_splits)
qed

theorem C9_status_delivery_witness:
  "created_order std_lib cat_ex Map.empty ''o1'' 0 body_ex ord_ex
   \<and> get_field body_ex ''status'' = JStr ''delivered''
   \<and> get_field body_ex ''deliveryCharge'' = JStr ''60''
   \<and> to_number std_lib (JStr ''60'') = Some (Fin 60)
   \<and> status ord_ex = ''pending''
   \<and> deliveryCharge ord_ex = Fin 60"
proof -
  have f: "get_field body_ex ''status'' = JStr ''delivered''"
    "get_field body_ex ''deliveryCharge'' = JStr ''60''"
    by (simp_all add: body_ex_def)
  have n: "to_number std_lib (JStr ''60'') = Some (Fin 60)"
    by (simp add: std_lib_def js_defs)
  then have "to_number std_lib (get_field body_ex ''deliveryCharge'') = Some (Fin 60) \<and> Fin 60 \<noteq> NaN"
    by (simp add: f)
  with C9_status_delivery [OF created_order_ex]
  have "status ord_ex = ''pending''" "deliveryCharge ord_ex = Fin 60"
    by blast+
  with f n show ?thesis
    by (intro conjI) (rule created_order_ex | assumption)+
qed

subsection \<open>C10: the image of a line\<close>

text \<open>
  C10. In a created order the \<open>imageUrl\<close> of each line is the one of the cart line, cast
  to a string, when that is truthy, and else the \<open>imageUrl\<close> of the product, the empty
  string when the product has none. So when the cart line has no image or an empty one
  and the product has none or an empty one, the stored \<open>imageUrl\<close> is the empty string;
  and an empty string in the cart line falls through to the image of the product.
\<close>

theorem C10_image:
  assumes "created_order l cat store oid now body ord"
  shows "list_all2
           (\<lambda>p item. case resolve l cat p of
                        None \<Rightarrow> False
                      | Some prd \<Rightarrow>
                          (if truthy (get_field p ''imageUrl'')
                           then cast_path l (get_field p ''imageUrl'') = Some (imageUrl item)
                           else imageUrl item =
                                  StrValue (case prod_imageUrl prd of Some u \<Rightarrow> u | None \<Rightarrow> []))
                          \<and> (\<not> truthy (get_field p ''imageUrl'')
                               \<and> (prod_imageUrl prd = None \<or> prod_imageUrl prd = Some [])
                              \<longrightarrow> imageUrl item = StrValue [])
                          \<and> (get_field p ''imageUrl'' = JStr [] \<longrightarrow>
                               (case prod_imageUrl prd of
                                  Some u \<Rightarrow> imageUrl item = StrValue u
                                | None \<Rightarrow> imageUrl item = StrValue [])))
           (cart_of body) (products ord)"
  using created_order_lines(1) [OF assms]
proof (rule list_all2_mono)
  fix p item
  assume "priced l cat p item"
  from priced_fields [OF this] obtain prd where
    r: "resolve l cat p = Some prd"
    and c: "cast_path l (js_or (js_or (get_field p ''imageUrl'') (opt_str (prod_imageUrl prd))) (JStr []))
              = Some (imageUrl item)"
    by blast
  show "case resolve l cat p of
          None \<Rightarrow> False
        | Some prd \<Rightarrow>
            (if truthy (get_field p ''imageUrl'')
             then cast_path l (get_field p ''imageUrl'') = Some (imageUrl item)
             else imageUrl item =
                    StrValue (case prod_imageUrl prd of Some u \<Rightarrow> u | None \<Rightarrow> []))
            \<and> (\<not> truthy (get_field p ''imageUrl'')
                 \<and> (prod_imageUrl prd = None \<or> prod_imageUrl prd = Some [])
                \<longrightarrow> imageUrl item = StrValue [])
            \<and> (get_field p ''imageUrl'' = JStr [] \<longrightarrow>
                 (case prod_imageUrl prd of
                    Some u \<Rightarrow> imageUrl item = StrValue u
                  | None \<Rightarrow> imageUrl item = StrValue []))"
    using c by (auto simp: r js_or_def opt_str_def split: option.splits if_splits)
qed

theorem C10_image_witness:
  "created_order std_lib cat_ex Map.empty ''o1'' 0 body_ex ord_ex
   \<and> list_all2
           (\<lambda>p item. case resolve std_lib cat_ex p of
                        None \<Rightarrow> False
                      | Some prd \<Rightarrow>
                          (if truthy (get_field p ''imageUrl'')
                           then cast_path std_lib (get_field p ''imageUrl'') = Some (imageUrl item)
                           else imageUrl item =
                                  StrValue (case prod_imageUrl prd of Some u \<Rightarrow> u | None \<Rightarrow> []))
                          \<and> (\<not> truthy (get_field p ''imageUrl'')
                               \<and> (prod_imageUrl prd = None \<or> prod_imageUrl prd = Some [])
                              \<longrightarrow> imageUrl item = StrValue [])
                          \<and> (get_field p ''imageUrl'' = JStr [] \<longrightarrow>
                               (case prod_imageUrl prd of
                                  Some u \<Rightarrow> imageUrl item = StrValue u
                                | None \<Rightarrow> imageUrl item = StrValue [])))
           (cart_of body_ex) (products ord_ex)
   \<and> get_field line_ex1 ''imageUrl'' = JUndefined \<and> prod_imageUrl P1 = None
   \<and> get_field line_ex2 ''imageUrl'' = JStr [] \<and> prod_imageUrl P2 = Some ''/uploads/cap.png''
   \<and> map imageUrl (products ord_ex) = [StrValue [], StrValue ''/uploads/cap.png'']"
  by (intro conjI) (rule created_order_ex C10_image [OF created_order_ex] image_fields_ex)+

end
